theory Spec2Isabelle
  imports Complex_Main
begin

section \<open>Numbers and identifiers\<close>

text \<open>
  JavaScript numbers are idealised as mathematical reals: rounding, overflow and the
  special values of IEEE doubles are outside the model, except where a definition
  below makes a special value explicit.  Database identifiers are strings, dates are
  milliseconds since the epoch.
\<close>

type_synonym ident = string
type_synonym millis = int

section \<open>Nutrition rollup\<close>

text \<open>A row of the \<^verbatim>\<open>foodEntry\<close> table, with the columns the aggregations read.\<close>

record foodEntry =
  fe_id :: ident
  fe_mealId :: ident
  fe_foodName :: string
  fe_quantity :: real
  fe_calories :: real
  fe_protein :: real
  fe_carbs :: real
  fe_fats :: real

text \<open>The accumulator object \<^verbatim>\<open>{ calories, protein, carbs, fats }\<close> of the reducers.\<close>

record macros =
  calories :: real
  protein :: real
  carbs :: real
  fats :: real

definition zeroMacros :: macros where
  "zeroMacros = \<lparr>calories = 0, protein = 0, carbs = 0, fats = 0\<rparr>"

text \<open>
  The reducer callback of \<^verbatim>\<open>meal.foodEntries.reduce((acc, food) => ..., {0,0,0,0})\<close>,
  as written in the charts route and in \<^verbatim>\<open>getDashboardData\<close>.
\<close>

definition addFood :: "macros \<Rightarrow> foodEntry \<Rightarrow> macros" where
  "addFood acc food =
     \<lparr>calories = calories acc + (fe_calories food * fe_quantity food),
      protein = protein acc + (fe_protein food * fe_quantity food),
      carbs = carbs acc + (fe_carbs food * fe_quantity food),
      fats = fats acc + (fe_fats food * fe_quantity food)\<rparr>"

definition mealTotals :: "foodEntry list \<Rightarrow> macros" where
  "mealTotals foodEntries = foldl addFood zeroMacros foodEntries"


text \<open>
  A meal row, and a meal row fetched with \<^verbatim>\<open>include: { foodEntries: true }\<close>.
  The stored totals are the incremental counters kept by the food routes.
\<close>

record meal =
  m_id :: ident
  m_userId :: ident
  m_date :: millis
  totalCalories :: real
  totalProtein :: real
  totalCarbs :: real
  totalFats :: real

record mealRow = meal +
  foodEntries :: "foodEntry list"

section \<open>GPS activity recorder\<close>

text \<open>The \<^verbatim>\<open>Position\<close> interface; an absent \<^verbatim>\<open>altitude\<close> is \<open>None\<close>.\<close>

record Position =
  lat :: real
  lng :: real
  timestamp :: millis
  altitude :: "real option"

text \<open>
  What the browser hands to the \<^verbatim>\<open>watchPosition\<close> callback:
  \<^verbatim>\<open>coords.altitude\<close> is a number or \<^verbatim>\<open>null\<close>.
\<close>

record GeolocationPosition =
  coords_latitude :: real
  coords_longitude :: real
  coords_altitude :: "real option"
  gp_timestamp :: millis

text \<open>
  \<^verbatim>\<open>Math.sqrt\<close> is NaN on a negative argument; NaN is \<open>None\<close>.
  \<^verbatim>\<open>Math.atan2(y, x)\<close> on finite arguments, signed zeros apart.
\<close>

definition js_sqrt :: "real \<Rightarrow> real option" where
  "js_sqrt x = (if x < 0 then None else Some (sqrt x))"

definition atan2 :: "real \<Rightarrow> real \<Rightarrow> real" where
  "atan2 y x =
     (if 0 < x then arctan (y / x)
      else if x < 0 then (if 0 \<le> y then arctan (y / x) + pi else arctan (y / x) - pi)
      else if 0 < y then pi / 2
      else if y < 0 then - (pi / 2)
      else 0)"

text \<open>The haversine formula of \<^verbatim>\<open>calculateDistance\<close>, in kilometres; \<open>None\<close> is NaN.\<close>

definition calculateDistance :: "real \<Rightarrow> real \<Rightarrow> real \<Rightarrow> real \<Rightarrow> real option" where
  "calculateDistance lat1 lon1 lat2 lon2 =
     (let R = 6371;
          dLat = (lat2 - lat1) * pi / 180;
          dLon = (lon2 - lon1) * pi / 180;
          a = sin (dLat / 2) * sin (dLat / 2) +
              cos (lat1 * pi / 180) * cos (lat2 * pi / 180) *
              sin (dLon / 2) * sin (dLon / 2)
      in case js_sqrt a of
           None \<Rightarrow> None
         | Some sa \<Rightarrow>
             (case js_sqrt (1 - a) of
                None \<Rightarrow> None
              | Some sb \<Rightarrow> Some (R * (2 * atan2 sa sb))))"

text \<open>
  The component state the recorder updates: \<^verbatim>\<open>positions\<close>, \<^verbatim>\<open>distance\<close> (km) and
  \<^verbatim>\<open>duration\<close> (timer ticks, one per second).
\<close>

record recorder =
  positions :: "Position list"
  distance :: real
  duration :: nat

text \<open>\<^verbatim>\<open>startRecording\<close> resets the three state variables.\<close>

definition startRecording :: recorder where
  "startRecording = \<lparr>positions = [], distance = 0, duration = 0\<rparr>"

text \<open>
  \<^verbatim>\<open>x || undefined\<close> on a number or null: null and the falsy number 0 both become
  undefined.
\<close>

definition orUndefined :: "real option \<Rightarrow> real option" where
  "orUndefined x = (case x of None \<Rightarrow> None | Some v \<Rightarrow> if v = 0 then None else Some v)"

definition newPos :: "GeolocationPosition \<Rightarrow> Position" where
  "newPos position =
     \<lparr>lat = coords_latitude position,
      lng = coords_longitude position,
      timestamp = gp_timestamp position,
      altitude = orUndefined (coords_altitude position)\<rparr>"

text \<open>
  The \<^verbatim>\<open>setPositions\<close> updater with its nested \<^verbatim>\<open>setDistance\<close>: the new fix is
  appended, and the step from the last recorded fix is added only when it exceeds
  0.005 km.  The comparison \<^verbatim>\<open>dist > 0.005\<close> is false when \<^verbatim>\<open>dist\<close> is NaN.
\<close>

definition addPosition :: "recorder \<Rightarrow> Position \<Rightarrow> recorder" where
  "addPosition st pos =
     (let prev = positions st;
          updated = prev @ [pos]
      in if length prev > 0
         then (let lastPos = last prev;
                   dist = calculateDistance (lat lastPos) (lng lastPos) (lat pos) (lng pos)
               in case dist of
                    Some d \<Rightarrow>
                      if d > 0.005
                      then st\<lparr>positions := updated, distance := distance st + d\<rparr>
                      else st\<lparr>positions := updated\<rparr>
                  | None \<Rightarrow> st\<lparr>positions := updated\<rparr>)
         else st\<lparr>positions := updated\<rparr>)"

definition onPosition :: "recorder \<Rightarrow> GeolocationPosition \<Rightarrow> recorder" where
  "onPosition st position = addPosition st (newPos position)"

text \<open>The recorder after the fixes \<open>ps\<close> arrived in this order since \<^verbatim>\<open>startRecording\<close>.\<close>

definition recordFixes :: "Position list \<Rightarrow> recorder" where
  "recordFixes ps = foldl addPosition startRecording ps"

definition recordReadings :: "GeolocationPosition list \<Rightarrow> recorder" where
  "recordReadings rs = foldl onPosition startRecording rs"

text \<open>
  Division of finite numbers as JavaScript performs it: a zero divisor gives an
  infinity or NaN instead of raising.  (The sign of a zero divisor is not modelled.)
\<close>

datatype jsnum = Finite real | PosInfinity | NegInfinity | NaN

definition js_div :: "real \<Rightarrow> real \<Rightarrow> jsnum" where
  "js_div x y =
     (if y \<noteq> 0 then Finite (x / y)
      else if 0 < x then PosInfinity
      else if x < 0 then NegInfinity
      else NaN)"

text \<open>
  \<^verbatim>\<open>duration > 0 && distance > 0 ? (duration / 60) / distance : 0\<close>, as in
  \<^verbatim>\<open>saveActivity\<close> (avgPace) and in the render body (currentPace), on the state
  variables \<^verbatim>\<open>duration\<close> (here \<open>dur\<close>) and \<^verbatim>\<open>distance\<close> (here \<open>km\<close>).
\<close>

definition avgPace :: "nat \<Rightarrow> real \<Rightarrow> jsnum" where
  "avgPace dur km =
     (if dur > 0 \<and> km > 0 then js_div (real dur / 60) km else Finite 0)"

definition currentPace :: "nat \<Rightarrow> real \<Rightarrow> jsnum" where
  "currentPace dur km =
     (if dur > 0 \<and> km > 0 then js_div (real dur / 60) km else Finite 0)"

text \<open>
  \<^verbatim>\<open>!x\<close> for an optional number: true for undefined and for the number 0.
\<close>

definition falsy :: "real option \<Rightarrow> bool" where
  "falsy x = (case x of None \<Rightarrow> True | Some v \<Rightarrow> v = 0)"

text \<open>
  The callback of \<^verbatim>\<open>positions.reduce((gain, pos, idx) => ..., 0)\<close> in
  \<^verbatim>\<open>saveActivity\<close>.  The test \<^verbatim>\<open>idx === 0\<close> comes first, so
  \<^verbatim>\<open>positions[idx - 1]\<close> is read only for \<open>idx \<ge> 1\<close>; \<open>reduce\<close> visits the indices
  below the length, so every read is in range.
\<close>

definition elevationStep :: "Position list \<Rightarrow> real \<Rightarrow> nat \<Rightarrow> real" where
  "elevationStep ps gain idx =
     (if idx = 0 \<or> falsy (altitude (ps ! idx)) \<or> falsy (altitude (ps ! (idx - 1)))
      then gain
      else (case (altitude (ps ! idx), altitude (ps ! (idx - 1))) of
              (Some cur, Some before) \<Rightarrow>
                (let diff = cur - before in if diff > 0 then gain + diff else gain)
            | _ \<Rightarrow> gain))"

definition elevationGain :: "Position list \<Rightarrow> real" where
  "elevationGain ps = foldl (elevationStep ps) 0 [0..<length ps]"

text \<open>
  The elevation gain in the words of the specification: the sum of the positive
  differences of consecutive altitudes, a step with a missing altitude on either
  side counting 0.
\<close>

definition positiveDelta :: "real option \<Rightarrow> real option \<Rightarrow> real" where
  "positiveDelta before cur =
     (case (before, cur) of
        (Some a, Some b) \<Rightarrow> if b - a > 0 then b - a else 0
      | _ \<Rightarrow> 0)"

definition spec_elevationGain :: "real option list \<Rightarrow> real" where
  "spec_elevationGain alts = (\<Sum>(a, b)\<leftarrow>zip alts (tl alts). positiveDelta a b)"

text \<open>
  The contribution of one step to the distance, and the sum of the contributions of
  the consecutive pairs of a sequence of fixes.
\<close>

definition stepDistance :: "Position \<Rightarrow> Position \<Rightarrow> real" where
  "stepDistance p q =
     (case calculateDistance (lat p) (lng p) (lat q) (lng q) of
        Some d \<Rightarrow> if d > 0.005 then d else 0
      | None \<Rightarrow> 0)"

fun pathDistance :: "Position list \<Rightarrow> real" where
  "pathDistance (p # q # rest) = stepDistance p q + pathDistance (q # rest)"
| "pathDistance _ = 0"

text \<open>
  A fix \<open>q\<close> lies within 5 meters of a fix \<open>p\<close>: the haversine distance is a number
  and at most 0.005 km.
\<close>

definition withinFiveMeters :: "Position \<Rightarrow> Position \<Rightarrow> bool" where
  "withinFiveMeters p q =
     (case calculateDistance (lat p) (lng p) (lat q) (lng q) of
        Some d \<Rightarrow> d \<le> 0.005
      | None \<Rightarrow> False)"

text \<open>
  Three fixes on the prime meridian, one second apart: \<open>fixQ\<close> is about 3.3 m north of
  \<open>fixA\<close>, and \<open>fixB\<close> about 12.2 m north of \<open>fixA\<close>.
\<close>

definition fixA :: Position where
  "fixA = \<lparr>lat = 0, lng = 0, timestamp = 0, altitude = None\<rparr>"

definition fixQ :: Position where
  "fixQ = \<lparr>lat = 3 / 100000, lng = 0, timestamp = 1000, altitude = None\<rparr>"

definition fixB :: Position where
  "fixB = \<lparr>lat = 11 / 100000, lng = 0, timestamp = 2000, altitude = None\<rparr>"

text \<open>Two readings of the browser at the same place: altitude 0 m, then 10 m.\<close>

definition readingSea :: GeolocationPosition where
  "readingSea = \<lparr>coords_latitude = 0, coords_longitude = 0, coords_altitude = Some 0,
                  gp_timestamp = 0\<rparr>"

definition readingHill :: GeolocationPosition where
  "readingHill = \<lparr>coords_latitude = 0, coords_longitude = 0, coords_altitude = Some 10,
                   gp_timestamp = 1000\<rparr>"

section \<open>Day buckets\<close>

text \<open>
  \<^verbatim>\<open>meal.date.toISOString().split('T')[0]\<close> is the UTC calendar date of the
  timestamp, written \<^verbatim>\<open>YYYY-MM-DD\<close>.  The text of the key and the number of the UTC day
  determine each other; the model uses the day number as the key.
\<close>

definition dateKey :: "millis \<Rightarrow> int" where
  "dateKey ms = ms div 86400000"

text \<open>
  A JavaScript \<^verbatim>\<open>Map\<close> as the list of its entries in insertion order:
  \<^verbatim>\<open>get\<close>, \<^verbatim>\<open>has\<close>, and \<^verbatim>\<open>set\<close>, which replaces the value of a present key in place
  and appends an absent one.
\<close>

fun mapGet :: "('k \<times> 'v) list \<Rightarrow> 'k \<Rightarrow> 'v option" where
  "mapGet [] k = None"
| "mapGet ((k', v) # m) k = (if k' = k then Some v else mapGet m k)"

definition mapHas :: "('k \<times> 'v) list \<Rightarrow> 'k \<Rightarrow> bool" where
  "mapHas m k = (mapGet m k \<noteq> None)"

fun mapSet :: "('k \<times> 'v) list \<Rightarrow> 'k \<Rightarrow> 'v \<Rightarrow> ('k \<times> 'v) list" where
  "mapSet [] k v = [(k, v)]"
| "mapSet ((k', v') # m) k v = (if k' = k then (k, v) # m else (k', v') # mapSet m k v)"

text \<open>
  The body of \<^verbatim>\<open>meals.forEach\<close> in the charts route: the totals of the meal's
  food entries are added to the bucket of the meal's day.
\<close>

definition addMealToDate :: "(int \<times> macros) list \<Rightarrow> mealRow \<Rightarrow> (int \<times> macros) list" where
  "addMealToDate nutritionByDate meal =
     (let key = dateKey (m_date meal);
          totals = mealTotals (foodEntries meal);
          existing = (case mapGet nutritionByDate key of
                        Some e \<Rightarrow> e
                      | None \<Rightarrow> \<lparr>calories = 0, protein = 0, carbs = 0, fats = 0\<rparr>)
      in mapSet nutritionByDate key
           \<lparr>calories = calories existing + calories totals,
            protein = protein existing + protein totals,
            carbs = carbs existing + carbs totals,
            fats = fats existing + fats totals\<rparr>)"

definition nutritionByDate :: "mealRow list \<Rightarrow> (int \<times> macros) list" where
  "nutritionByDate meals = foldl addMealToDate [] meals"

text \<open>
  The value object of the \<^verbatim>\<open>dailyData\<close> map of the nutrition insights route, and the
  body of its \<^verbatim>\<open>meals.forEach\<close>: the stored totals of the meal are added to the day's
  object, created with zeros when the day is new.  The lookup \<^verbatim>\<open>dailyData.get(dateKey)!\<close>
  comes after that, so it finds the day.
\<close>

record dayData =
  dd_date :: int
  dd_totalCalories :: real
  dd_totalProtein :: real
  dd_totalCarbs :: real
  dd_totalFats :: real
  dd_meals :: "string list"

definition addMealToDay :: "(int \<times> dayData) list \<Rightarrow> mealRow \<Rightarrow> (int \<times> dayData) list" where
  "addMealToDay dailyData meal =
     (let key = dateKey (m_date meal);
          dailyData' =
            (if \<not> mapHas dailyData key
             then mapSet dailyData key
                    \<lparr>dd_date = key, dd_totalCalories = 0, dd_totalProtein = 0,
                     dd_totalCarbs = 0, dd_totalFats = 0, dd_meals = []\<rparr>
             else dailyData)
      in case mapGet dailyData' key of
           None \<Rightarrow> dailyData'
         | Some d \<Rightarrow>
             mapSet dailyData' key
               (d\<lparr>dd_totalCalories := dd_totalCalories d + totalCalories meal,
                  dd_totalProtein := dd_totalProtein d + totalProtein meal,
                  dd_totalCarbs := dd_totalCarbs d + totalCarbs meal,
                  dd_totalFats := dd_totalFats d + totalFats meal,
                  dd_meals := dd_meals d @ map fe_foodName (foodEntries meal)\<rparr>))"

definition dailyData :: "mealRow list \<Rightarrow> (int \<times> dayData) list" where
  "dailyData meals = foldl addMealToDay [] meals"

text \<open>\<^verbatim>\<open>Array.from(dailyData.values())\<close>.\<close>

definition weeklyData :: "mealRow list \<Rightarrow> dayData list" where
  "weeklyData meals = map snd (dailyData meals)"

section \<open>Requests, validation and the database\<close>

text \<open>
  A value of a parsed JSON body at one key; \<open>JUndefined\<close> is an absent key, \<open>JOther\<close>
  an array or an object.
\<close>

datatype json = JUndefined | JNull | JBool bool | JNumber real | JString string | JOther

text \<open>
  An issue of a \<^verbatim>\<open>ZodError\<close>: the key it is about, and the message given in the
  schema when there is one (the library's default text otherwise).
\<close>

datatype issue =
    InvalidType string
  | InvalidEnumValue string
  | TooSmall string "string option"

text \<open>The checks of the schema combinators the two schemas use, each on one key.\<close>

definition zString :: "string \<Rightarrow> json \<Rightarrow> issue list" where
  "zString key v = (case v of JString s \<Rightarrow> [] | _ \<Rightarrow> [InvalidType key])"

definition zStringMin1 :: "string \<Rightarrow> string \<Rightarrow> json \<Rightarrow> issue list" where
  "zStringMin1 key msg v =
     (case v of
        JString s \<Rightarrow> if length s < 1 then [TooSmall key (Some msg)] else []
      | _ \<Rightarrow> [InvalidType key])"

definition zStringOptionalNullable :: "string \<Rightarrow> json \<Rightarrow> issue list" where
  "zStringOptionalNullable key v =
     (case v of JUndefined \<Rightarrow> [] | JNull \<Rightarrow> [] | JString s \<Rightarrow> [] | _ \<Rightarrow> [InvalidType key])"

definition zEnum :: "string \<Rightarrow> string list \<Rightarrow> json \<Rightarrow> issue list" where
  "zEnum key options v =
     (case v of
        JString s \<Rightarrow> if s \<in> set options then [] else [InvalidEnumValue key]
      | _ \<Rightarrow> [InvalidType key])"

definition zNumber :: "string \<Rightarrow> json \<Rightarrow> issue list" where
  "zNumber key v = (case v of JNumber n \<Rightarrow> [] | _ \<Rightarrow> [InvalidType key])"

definition zNumberPositive :: "string \<Rightarrow> string option \<Rightarrow> json \<Rightarrow> issue list" where
  "zNumberPositive key msg v =
     (case v of
        JNumber n \<Rightarrow> if n > 0 then [] else [TooSmall key msg]
      | _ \<Rightarrow> [InvalidType key])"

definition zNumberOptionalNullable :: "string \<Rightarrow> json \<Rightarrow> issue list" where
  "zNumberOptionalNullable key v =
     (case v of JUndefined \<Rightarrow> [] | JNull \<Rightarrow> [] | JNumber n \<Rightarrow> [] | _ \<Rightarrow> [InvalidType key])"

definition zBooleanOptional :: "string \<Rightarrow> json \<Rightarrow> issue list" where
  "zBooleanOptional key v =
     (case v of JUndefined \<Rightarrow> [] | JBool b \<Rightarrow> [] | _ \<Rightarrow> [InvalidType key])"

text \<open>Reading a validated value.\<close>

definition asString :: "json \<Rightarrow> string" where
  "asString v = (case v of JString s \<Rightarrow> s | _ \<Rightarrow> [])"

definition asStringOption :: "json \<Rightarrow> string option" where
  "asStringOption v = (case v of JString s \<Rightarrow> Some s | _ \<Rightarrow> None)"

definition asNumber :: "json \<Rightarrow> real" where
  "asNumber v = (case v of JNumber n \<Rightarrow> n | _ \<Rightarrow> 0)"

text \<open>
  The response of a route handler: \<^verbatim>\<open>NextResponse.json(body, { status })\<close> with a
  payload, or with \<^verbatim>\<open>{ error }\<close>, whose text is a literal of the source or the message
  of a validation issue.
\<close>

datatype errorText = Literal string | IssueMessage issue

datatype 'a response = Json nat 'a | ErrorJson nat errorText

text \<open>
  An optional string used as a condition, as in \<^verbatim>\<open>!session?.user?.id\<close>,
  \<^verbatim>\<open>!session?.user?.email\<close> and \<^verbatim>\<open>!foodEntryId\<close>: an absent and an empty string are
  falsy.  The result is the string when it is truthy.
\<close>

definition truthy :: "string option \<Rightarrow> string option" where
  "truthy x = (case x of None \<Rightarrow> None | Some v \<Rightarrow> if v = [] then None else Some v)"

datatype challengeType = Steps | Distance | WeightLoss | WorkoutCount

record user =
  u_id :: ident
  u_email :: string

record challenge =
  c_id :: ident
  c_creatorId :: ident
  c_name :: string
  c_description :: "string option"
  challengeType :: challengeType
  goalValue :: real
  startDate :: millis
  endDate :: millis
  isPublic :: bool

record participation =
  p_challengeId :: ident
  p_userId :: ident
  joinedAt :: millis

text \<open>
  The tables the modelled routes read and write.  Rows carry the columns the routes
  use; identifiers are unique within a table.  The storage calls are taken to succeed
  unless a definition below says otherwise.
\<close>

record database =
  userTable :: "user list"
  challengeTable :: "challenge list"
  participationTable :: "participation list"
  mealTable :: "meal list"
  foodEntryTable :: "foodEntry list"

section \<open>Creating a challenge\<close>

record challengeBody =
  b_name :: json
  b_description :: json
  b_challengeType :: json
  b_goalValue :: json
  b_startDate :: json
  b_endDate :: json
  b_isPublic :: json

text \<open>The issues \<^verbatim>\<open>challengeSchema.parse\<close> finds, in the order of the schema's keys.\<close>

definition challengeSchema_issues :: "challengeBody \<Rightarrow> issue list" where
  "challengeSchema_issues body =
     zStringMin1 ''name'' ''Name is required'' (b_name body) @
     zStringOptionalNullable ''description'' (b_description body) @
     zEnum ''challengeType'' [''steps'', ''distance'', ''weight_loss'', ''workout_count'']
       (b_challengeType body) @
     zNumberPositive ''goalValue'' (Some ''Goal value must be positive'') (b_goalValue body) @
     zString ''startDate'' (b_startDate body) @
     zString ''endDate'' (b_endDate body) @
     zBooleanOptional ''isPublic'' (b_isPublic body)"

definition challengeTypeOf :: "string \<Rightarrow> challengeType" where
  "challengeTypeOf s =
     (if s = ''steps'' then Steps
      else if s = ''distance'' then Distance
      else if s = ''weight_loss'' then WeightLoss
      else WorkoutCount)"

text \<open>
  \<^verbatim>\<open>POST /api/challenges\<close>.  \<open>parseDate\<close> stands for \<^verbatim>\<open>new Date(string)\<close>; \<open>newId\<close> and
  \<open>now\<close> are the identifier and the time the storage layer gives the new rows.  The
  handler returns the response and the database it leaves.
\<close>

definition POST_challenge ::
  "(string \<Rightarrow> millis) \<Rightarrow> ident option \<Rightarrow> challengeBody \<Rightarrow> ident \<Rightarrow> millis \<Rightarrow> database
     \<Rightarrow> challenge response \<times> database" where
  "POST_challenge parseDate sessionUserId body newId now db =
     (case truthy sessionUserId of
        None \<Rightarrow> (ErrorJson 401 (Literal ''Unauthorized''), db)
      | Some uid \<Rightarrow>
          (case challengeSchema_issues body of
             first # others \<Rightarrow> (ErrorJson 400 (IssueMessage first), db)
           | [] \<Rightarrow>
               (let created =
                      \<lparr>c_id = newId,
                       c_creatorId = uid,
                       c_name = asString (b_name body),
                       c_description = asStringOption (b_description body),
                       challengeType = challengeTypeOf (asString (b_challengeType body)),
                       goalValue = asNumber (b_goalValue body),
                       startDate = parseDate (asString (b_startDate body)),
                       endDate = parseDate (asString (b_endDate body)),
                       isPublic = (case b_isPublic body of JBool b \<Rightarrow> b | _ \<Rightarrow> True)\<rparr>;
                    joined = \<lparr>p_challengeId = newId, p_userId = uid, joinedAt = now\<rparr>
                in (Json 201 created,
                    db\<lparr>challengeTable := challengeTable db @ [created],
                       participationTable := participationTable db @ [joined]\<rparr>))))"

section \<open>Adding and removing food entries\<close>

record foodBody =
  b_foodName :: json
  b_brand :: json
  b_servingSize :: json
  b_servingUnit :: json
  b_quantity :: json
  b_calories :: json
  b_protein :: json
  b_carbs :: json
  b_fats :: json
  b_fiber :: json
  b_sugar :: json
  b_sodium :: json

definition foodEntrySchema_issues :: "foodBody \<Rightarrow> issue list" where
  "foodEntrySchema_issues body =
     zString ''foodName'' (b_foodName body) @
     zStringOptionalNullable ''brand'' (b_brand body) @
     zString ''servingSize'' (b_servingSize body) @
     zString ''servingUnit'' (b_servingUnit body) @
     zNumberPositive ''quantity'' None (b_quantity body) @
     zNumber ''calories'' (b_calories body) @
     zNumber ''protein'' (b_protein body) @
     zNumber ''carbs'' (b_carbs body) @
     zNumber ''fats'' (b_fats body) @
     zNumberOptionalNullable ''fiber'' (b_fiber body) @
     zNumberOptionalNullable ''sugar'' (b_sugar body) @
     zNumberOptionalNullable ''sodium'' (b_sodium body)"

text \<open>A meal row with \<^verbatim>\<open>include: { foodEntries: true }\<close>.\<close>

definition includeFoodEntries :: "database \<Rightarrow> meal \<Rightarrow> mealRow" where
  "includeFoodEntries db m =
     meal.extend m
       \<lparr>foodEntries = filter (\<lambda>e. fe_mealId e = m_id m) (foodEntryTable db)\<rparr>"

text \<open>
  \<^verbatim>\<open>prisma.meal.update({ where: { id }, data: { totalCalories: { increment }, ... } })\<close>
  and its \<^verbatim>\<open>decrement\<close> twin, on the meal table: the amounts are added to, or taken
  from, the stored totals of the row with that identifier.
\<close>

definition incrementTotals :: "ident \<Rightarrow> macros \<Rightarrow> meal list \<Rightarrow> meal list" where
  "incrementTotals mealId amount table =
     map (\<lambda>m. if m_id m = mealId
               then m\<lparr>totalCalories := totalCalories m + calories amount,
                      totalProtein := totalProtein m + protein amount,
                      totalCarbs := totalCarbs m + carbs amount,
                      totalFats := totalFats m + fats amount\<rparr>
               else m) table"

definition decrementTotals :: "ident \<Rightarrow> macros \<Rightarrow> meal list \<Rightarrow> meal list" where
  "decrementTotals mealId amount table =
     map (\<lambda>m. if m_id m = mealId
               then m\<lparr>totalCalories := totalCalories m - calories amount,
                      totalProtein := totalProtein m - protein amount,
                      totalCarbs := totalCarbs m - carbs amount,
                      totalFats := totalFats m - fats amount\<rparr>
               else m) table"

text \<open>
  \<^verbatim>\<open>POST /api/meals/[id]/food\<close>: the login, then the meal of that user, then the body;
  the entry is created and the meal's stored totals are incremented.
\<close>

definition POST_food ::
  "ident option \<Rightarrow> ident \<Rightarrow> foodBody \<Rightarrow> ident \<Rightarrow> database
     \<Rightarrow> (mealRow \<times> foodEntry) response \<times> database" where
  "POST_food sessionUserId mealId body newId db =
     (case truthy sessionUserId of
        None \<Rightarrow> (ErrorJson 401 (Literal ''Unauthorized''), db)
      | Some uid \<Rightarrow>
          (case find (\<lambda>m. m_id m = mealId \<and> m_userId m = uid) (mealTable db) of
             None \<Rightarrow> (ErrorJson 404 (Literal ''Meal not found''), db)
           | Some meal \<Rightarrow>
               (case foodEntrySchema_issues body of
                  first # others \<Rightarrow> (ErrorJson 400 (IssueMessage first), db)
                | [] \<Rightarrow>
                    (let foodEntry =
                           \<lparr>fe_id = newId,
                            fe_mealId = mealId,
                            fe_foodName = asString (b_foodName body),
                            fe_quantity = asNumber (b_quantity body),
                            fe_calories = asNumber (b_calories body),
                            fe_protein = asNumber (b_protein body),
                            fe_carbs = asNumber (b_carbs body),
                            fe_fats = asNumber (b_fats body)\<rparr>;
                         amount =
                           \<lparr>calories = fe_calories foodEntry * fe_quantity foodEntry,
                            protein = fe_protein foodEntry * fe_quantity foodEntry,
                            carbs = fe_carbs foodEntry * fe_quantity foodEntry,
                            fats = fe_fats foodEntry * fe_quantity foodEntry\<rparr>;
                         db' = db\<lparr>foodEntryTable := foodEntryTable db @ [foodEntry],
                                  mealTable := incrementTotals mealId amount (mealTable db)\<rparr>
                     in (case find (\<lambda>m. m_id m = mealId) (mealTable db') of
                           Some updatedMeal \<Rightarrow>
                             (Json 201 (includeFoodEntries db' updatedMeal, foodEntry), db')
                         | None \<Rightarrow> (ErrorJson 500 (Literal ''Failed to add food''), db'))))))"

text \<open>
  \<^verbatim>\<open>DELETE /api/meals/[id]/food?foodEntryId=...\<close>.  The entry is looked up by its own
  identifier and its owner checked through the meal it belongs to; the entry is
  deleted; then the stored totals of the meal named in the path are decremented.
  When no meal has the identifier of the path the update throws after the entry is
  gone, and the handler answers 500.
\<close>

definition DELETE_food ::
  "ident option \<Rightarrow> ident \<Rightarrow> ident option \<Rightarrow> database \<Rightarrow> mealRow response \<times> database" where
  "DELETE_food sessionUserId mealId foodEntryIdParam db =
     (case truthy sessionUserId of
        None \<Rightarrow> (ErrorJson 401 (Literal ''Unauthorized''), db)
      | Some uid \<Rightarrow>
          (case truthy foodEntryIdParam of
             None \<Rightarrow> (ErrorJson 400 (Literal ''foodEntryId is required''), db)
           | Some foodEntryId \<Rightarrow>
               (case find (\<lambda>e. fe_id e = foodEntryId) (foodEntryTable db) of
                  None \<Rightarrow> (ErrorJson 404 (Literal ''Food entry not found''), db)
                | Some foodEntry \<Rightarrow>
                    (case find (\<lambda>m. m_id m = fe_mealId foodEntry) (mealTable db) of
                       None \<Rightarrow> (ErrorJson 500 (Literal ''Failed to delete food''), db)
                     | Some owner \<Rightarrow>
                         if m_userId owner \<noteq> uid
                         then (ErrorJson 403 (Literal ''Unauthorized''), db)
                         else
                           (let deleted =
                                  db\<lparr>foodEntryTable :=
                                       filter (\<lambda>e. fe_id e \<noteq> foodEntryId) (foodEntryTable db)\<rparr>;
                                amount =
                                  \<lparr>calories = fe_calories foodEntry * fe_quantity foodEntry,
                                   protein = fe_protein foodEntry * fe_quantity foodEntry,
                                   carbs = fe_carbs foodEntry * fe_quantity foodEntry,
                                   fats = fe_fats foodEntry * fe_quantity foodEntry\<rparr>;
                                db' = deleted\<lparr>mealTable :=
                                                decrementTotals mealId amount (mealTable deleted)\<rparr>
                            in (case find (\<lambda>m. m_id m = mealId) (mealTable db') of
                                  Some updatedMeal \<Rightarrow>
                                    (Json 200 (includeFoodEntries db' updatedMeal), db')
                                | None \<Rightarrow>
                                    (ErrorJson 500 (Literal ''Failed to delete food''),
                                     deleted)))))))"

text \<open>The stored totals of the meal with a given identifier.\<close>

definition storedTotals :: "database \<Rightarrow> ident \<Rightarrow> macros option" where
  "storedTotals db mealId =
     (case find (\<lambda>m. m_id m = mealId) (mealTable db) of
        None \<Rightarrow> None
      | Some m \<Rightarrow>
          Some \<lparr>calories = totalCalories m, protein = totalProtein m,
                carbs = totalCarbs m, fats = totalFats m\<rparr>)"

section \<open>The challenge leaderboard\<close>

record leaderboardEntry =
  le_userId :: ident
  le_userName :: string
  le_userEmail :: string
  progress :: real
  progressPercentage :: real
  le_joinedAt :: millis
  isCompleted :: bool
  rank :: nat

record leaderboardBody =
  lb_challenge :: challenge
  leaderboard :: "leaderboardEntry list"

text \<open>\<^verbatim>\<open>prisma.challengeParticipation.findMany({ where: { challengeId } })\<close>.\<close>

definition participantsOf :: "database \<Rightarrow> ident \<Rightarrow> participation list" where
  "participantsOf db challengeId =
     filter (\<lambda>p. p_challengeId p = challengeId) (participationTable db)"

text \<open>
  \<^verbatim>\<open>GET /api/challenges/[id]/leaderboard\<close>: the login by email, the user, the challenge,
  then the participants mapped with their index.
\<close>

definition GET_leaderboard ::
  "string option \<Rightarrow> ident \<Rightarrow> database \<Rightarrow> leaderboardBody response" where
  "GET_leaderboard sessionEmail challengeId db =
     (case truthy sessionEmail of
        None \<Rightarrow> ErrorJson 401 (Literal ''Unauthorized'')
      | Some email \<Rightarrow>
          (case find (\<lambda>u. u_email u = email) (userTable db) of
             None \<Rightarrow> ErrorJson 401 (Literal ''User not found'')
           | Some user \<Rightarrow>
               (case find (\<lambda>c. c_id c = challengeId) (challengeTable db) of
                  None \<Rightarrow> ErrorJson 404 (Literal ''Challenge not found'')
                | Some challenge \<Rightarrow>
                    Json 200
                      \<lparr>lb_challenge = challenge,
                       leaderboard =
                         map (\<lambda>(index, p).
                                \<lparr>le_userId = p_userId p,
                                 le_userName = ''Test User'',
                                 le_userEmail = ''test@test.com'',
                                 progress = 0,
                                 progressPercentage = 0,
                                 le_joinedAt = joinedAt p,
                                 isCompleted = False,
                                 rank = index + 1\<rparr>)
                             (enumerate 0 (participantsOf db challengeId))\<rparr>)))"

text \<open>
  The progress of a participant in the words of the specification, from the user's
  history: the summed distance for a distance challenge, the number of workouts
  logged within the challenge window for a workout-count challenge, the weight delta
  (first minus latest weight) for a weight-loss challenge, the summed steps for a steps
  challenge.
\<close>

record history =
  h_distances :: "real list"
  h_workoutDates :: "millis list"
  h_firstWeight :: real
  h_latestWeight :: real
  h_stepCounts :: "real list"

definition spec_progress :: "challenge \<Rightarrow> history \<Rightarrow> real" where
  "spec_progress c h =
     (case challengeType c of
        Distance \<Rightarrow> sum_list (h_distances h)
      | WorkoutCount \<Rightarrow>
          real (length (filter (\<lambda>d. startDate c \<le> d \<and> d \<le> endDate c) (h_workoutDates h)))
      | WeightLoss \<Rightarrow> h_firstWeight h - h_latestWeight h
      | Steps \<Rightarrow> sum_list (h_stepCounts h))"

section \<open>Example data\<close>

text \<open>An example: a distance challenge with two participants, and the history of one of them.\<close>

definition exampleChallenge :: challenge where
  "exampleChallenge =
     \<lparr>c_id = ''c1'', c_creatorId = ''u1'', c_name = ''Run 100 km'', c_description = None,
      challengeType = Distance, goalValue = 100, startDate = 0, endDate = 864000000,
      isPublic = True\<rparr>"

definition exampleDb :: database where
  "exampleDb =
     \<lparr>userTable = [\<lparr>u_id = ''u1'', u_email = ''ann@example.org''\<rparr>,
                   \<lparr>u_id = ''u2'', u_email = ''bob@example.org''\<rparr>],
      challengeTable = [exampleChallenge],
      participationTable = [\<lparr>p_challengeId = ''c1'', p_userId = ''u1'', joinedAt = 10\<rparr>,
                            \<lparr>p_challengeId = ''c1'', p_userId = ''u2'', joinedAt = 20\<rparr>],
      mealTable = [],
      foodEntryTable = []\<rparr>"

definition exampleHistory :: history where
  "exampleHistory =
     \<lparr>h_distances = [5, 7], h_workoutDates = [], h_firstWeight = 80, h_latestWeight = 80,
      h_stepCounts = []\<rparr>"

text \<open>The same database with no participation in any challenge.\<close>

definition emptyChallengeDb :: database where
  "emptyChallengeDb = exampleDb\<lparr>participationTable := []\<rparr>"

text \<open>The HTTP status of a response.\<close>

definition statusOf :: "'a response \<Rightarrow> nat" where
  "statusOf r = (case r of Json status body \<Rightarrow> status | ErrorJson status text \<Rightarrow> status)"

text \<open>Example requests: a challenge with a negative goal, a well-formed food entry.\<close>

definition badChallengeBody :: challengeBody where
  "badChallengeBody =
     \<lparr>b_name = JString ''Run 100 km'', b_description = JUndefined,
      b_challengeType = JString ''distance'', b_goalValue = JNumber (- 5),
      b_startDate = JString ''2025-01-01'', b_endDate = JString ''2025-02-01'',
      b_isPublic = JUndefined\<rparr>"

definition oatsBody :: foodBody where
  "oatsBody =
     \<lparr>b_foodName = JString ''Oats'', b_brand = JUndefined, b_servingSize = JString ''100'',
      b_servingUnit = JString ''g'', b_quantity = JNumber 2, b_calories = JNumber 100,
      b_protein = JNumber 10, b_carbs = JNumber 20, b_fats = JNumber 5,
      b_fiber = JUndefined, b_sugar = JUndefined, b_sodium = JUndefined\<rparr>"

text \<open>
  An example database: one user with two meals \<open>A\<close> and \<open>B\<close>, no food entries.  Then the
  databases left by adding an entry to meal \<open>A\<close>, and by deleting that entry through the
  path of meal \<open>B\<close>.
\<close>

definition mealsDb :: database where
  "mealsDb =
     \<lparr>userTable = [\<lparr>u_id = ''u1'', u_email = ''ann@example.org''\<rparr>],
      challengeTable = [],
      participationTable = [],
      mealTable =
        [\<lparr>m_id = ''A'', m_userId = ''u1'', m_date = 0, totalCalories = 0, totalProtein = 0,
          totalCarbs = 0, totalFats = 0\<rparr>,
         \<lparr>m_id = ''B'', m_userId = ''u1'', m_date = 0, totalCalories = 0, totalProtein = 0,
          totalCarbs = 0, totalFats = 0\<rparr>],
      foodEntryTable = []\<rparr>"

definition afterAdd :: database where
  "afterAdd = snd (POST_food (Some ''u1'') ''A'' oatsBody ''e1'' mealsDb)"

definition afterDelete :: database where
  "afterDelete = snd (DELETE_food (Some ''u1'') ''B'' (Some ''e1'') afterAdd)"

section \<open>Nutrition rollup: properties\<close>

lemma foldl_addFood_calories:
  "calories (foldl addFood acc fs) = calories acc + (\<Sum>f\<leftarrow>fs. fe_quantity f * fe_calories f)"
  by (induction fs arbitrary: acc) (simp_all add: addFood_def algebra_simps)

lemma foldl_addFood_protein:
  "protein (foldl addFood acc fs) = protein acc + (\<Sum>f\<leftarrow>fs. fe_quantity f * fe_protein f)"
  by (induction fs arbitrary: acc) (simp_all add: addFood_def algebra_simps)

lemma foldl_addFood_carbs:
  "carbs (foldl addFood acc fs) = carbs acc + (\<Sum>f\<leftarrow>fs. fe_quantity f * fe_carbs f)"
  by (induction fs arbitrary: acc) (simp_all add: addFood_def algebra_simps)

lemma foldl_addFood_fats:
  "fats (foldl addFood acc fs) = fats acc + (\<Sum>f\<leftarrow>fs. fe_quantity f * fe_fats f)"
  by (induction fs arbitrary: acc) (simp_all add: addFood_def algebra_simps)

text \<open>
  Claim C1.  The totals computed for a meal are, for each of the four macro fields
  independently, the sum over its food entries of quantity times the per-unit value.
  In particular the entries \<^verbatim>\<open>{quantity:2, calories:100}\<close> and
  \<^verbatim>\<open>{quantity:1, calories:50}\<close> give 250 calories, whatever their other fields are.
\<close>

theorem mealTotals_sums:
  "calories (mealTotals fs) = (\<Sum>f\<leftarrow>fs. fe_quantity f * fe_calories f)
   \<and> protein (mealTotals fs) = (\<Sum>f\<leftarrow>fs. fe_quantity f * fe_protein f)
   \<and> carbs (mealTotals fs) = (\<Sum>f\<leftarrow>fs. fe_quantity f * fe_carbs f)
   \<and> fats (mealTotals fs) = (\<Sum>f\<leftarrow>fs. fe_quantity f * fe_fats f)
   \<and> calories (mealTotals [e1\<lparr>fe_quantity := 2, fe_calories := 100\<rparr>,
                           e2\<lparr>fe_quantity := 1, fe_calories := 50\<rparr>]) = 250"
  by (simp add: mealTotals_def zeroMacros_def addFood_def foldl_addFood_calories
      foldl_addFood_protein foldl_addFood_carbs foldl_addFood_fats)

section \<open>GPS recorder: properties\<close>

lemma addPosition_eq:
  "addPosition st pos =
     st\<lparr>positions := positions st @ [pos],
        distance := distance st +
          (if positions st = [] then 0 else stepDistance (last (positions st)) pos)\<rparr>"
  by (cases "calculateDistance (lat (last (positions st))) (lng (last (positions st))) (lat pos) (lng pos)")
     (simp_all add: addPosition_def stepDistance_def Let_def)

lemma positions_addPosition: "positions (addPosition st pos) = positions st @ [pos]"
  by (simp add: addPosition_eq)

lemma distance_addPosition:
  "distance (addPosition st pos) =
     distance st + (if positions st = [] then 0 else stepDistance (last (positions st)) pos)"
  by (simp add: addPosition_eq)

lemma positions_foldl_addPosition:
  "positions (foldl addPosition st ps) = positions st @ ps"
  by (induction ps arbitrary: st) (simp_all add: positions_addPosition)

lemma pathDistance_zip:
  "pathDistance ps = (\<Sum>(p, q)\<leftarrow>zip ps (tl ps). stepDistance p q)"
  by (induction ps rule: pathDistance.induct) simp_all

lemma distance_foldl_addPosition:
  "positions st \<noteq> [] \<Longrightarrow>
   distance (foldl addPosition st ps) = distance st + pathDistance (last (positions st) # ps)"
  by (induction ps arbitrary: st) (simp_all add: positions_addPosition distance_addPosition)

lemma distance_recordFixes: "distance (recordFixes ps) = pathDistance ps"
proof (cases ps)
  case Nil
  then show ?thesis by (simp add: recordFixes_def startRecording_def)
next
  case (Cons p rest)
  then show ?thesis
    by (simp add: recordFixes_def startRecording_def distance_foldl_addPosition
        positions_addPosition distance_addPosition)
qed

lemma calculateDistance_meridian:
  assumes "lat1 \<le> lat2" and "lat2 - lat1 < 180"
  shows "calculateDistance lat1 lon lat2 lon = Some (6371 * ((lat2 - lat1) * pi / 180))"
proof -
  define t where "t = (lat2 - lat1) * pi / 180 / 2"
  have t0: "0 \<le> t" using assms by (simp add: t_def)
  have t1: "t < pi / 2" using assms by (simp add: t_def)
  have s0: "0 \<le> sin t" using t0 t1 by (intro sin_ge_zero) simp_all
  have c0: "0 < cos t" using t0 t1 by (intro cos_gt_zero_pi) simp_all
  have a: "sin t * sin t + cos (lat1 * pi / 180) * cos (lat2 * pi / 180) * sin ((lon - lon) * pi / 180 / 2) * sin ((lon - lon) * pi / 180 / 2)
           = (sin t)\<^sup>2" by (simp add: power2_eq_square)
  have b: "1 - (sin t)\<^sup>2 = (cos t)\<^sup>2" by (simp add: cos_squared_eq)
  have sa: "js_sqrt ((sin t)\<^sup>2) = Some (sin t)" using s0 by (simp add: js_sqrt_def)
  have sb: "js_sqrt ((cos t)\<^sup>2) = Some (cos t)" using c0 by (simp add: js_sqrt_def)
  have at: "atan2 (sin t) (cos t) = t"
    using c0 t0 t1 arctan_tan [of t] by (simp add: atan2_def tan_def)
  have "calculateDistance lat1 lon lat2 lon = Some (6371 * (2 * t))"
    unfolding calculateDistance_def Let_def t_def [symmetric] a b sa sb
    by (simp add: at)
  also have "6371 * (2 * t) = 6371 * ((lat2 - lat1) * pi / 180)"
    by (simp add: t_def)
  finally show ?thesis .
qed


lemma stepDistance_within: "withinFiveMeters p q \<Longrightarrow> stepDistance p q = 0"
  by (auto simp: withinFiveMeters_def stepDistance_def split: option.splits)

lemma stepDistance_same_place:
  "lat q = lat p \<Longrightarrow> lng q = lng p \<Longrightarrow> stepDistance q r = stepDistance p r"
  by (simp add: stepDistance_def)

lemma pathDistance_append:
  "pathDistance (xs @ p # ys) = pathDistance (xs @ [p]) + pathDistance (p # ys)"
  by (induction xs rule: pathDistance.induct) simp_all

lemma pathDistance_insert:
  "pathDistance (xs @ p # q # r # ys) =
     pathDistance (xs @ p # r # ys) - stepDistance p r + stepDistance p q + stepDistance q r"
  using pathDistance_append [of xs p "q # r # ys"] pathDistance_append [of xs p "r # ys"]
  by simp

lemma pathDistance_snoc2:
  "pathDistance (xs @ [p, q]) = pathDistance (xs @ [p]) + stepDistance p q"
  using pathDistance_append [of xs p "[q]"] by simp

text \<open>
  Claim C3.  After any sequence of fixes the recorded distance is the sum, over the
  consecutive pairs of fixes, of the haversine distance of the pair where that exceeds
  0.005 km, and of 0 otherwise; so a step below the 5 meter threshold adds nothing and a
  step above it adds its haversine distance.  With fewer than two fixes the distance
  is 0.  The haversine distance uses the radius 6371 km: along a meridian it is 6371
  times the difference of the latitudes in radians.  The browser's readings are
  recorded as the fixes they are converted to.
\<close>

theorem recorded_distance:
  "distance (recordFixes ps) = (\<Sum>(p, q)\<leftarrow>zip ps (tl ps). stepDistance p q)
   \<and> positions (recordFixes ps) = ps
   \<and> recordReadings rs = recordFixes (map newPos rs)
   \<and> (length ps < 2 \<longrightarrow> distance (recordFixes ps) = 0)
   \<and> (calculateDistance (lat p) (lng p) (lat q) (lng q) = Some d \<and> d < 0.005
        \<longrightarrow> stepDistance p q = 0)
   \<and> (calculateDistance (lat p') (lng p') (lat q') (lng q') = Some d' \<and> 0.005 < d'
        \<longrightarrow> stepDistance p' q' = d')
   \<and> (lat1 \<le> lat2 \<and> lat2 - lat1 < 180
        \<longrightarrow> calculateDistance lat1 lon lat2 lon = Some (6371 * ((lat2 - lat1) * pi / 180)))"
proof -
  have sum: "distance (recordFixes ps) = (\<Sum>(p, q)\<leftarrow>zip ps (tl ps). stepDistance p q)"
    by (simp add: distance_recordFixes pathDistance_zip)
  have pos: "positions (recordFixes ps) = ps"
    by (simp add: recordFixes_def positions_foldl_addPosition startRecording_def)
  have rd: "recordReadings rs = recordFixes (map newPos rs)"
  proof -
    have "onPosition = (\<lambda>st x. addPosition st (newPos x))"
      by (intro ext) (simp add: onPosition_def)
    then show ?thesis
      by (simp add: recordReadings_def recordFixes_def foldl_map)
  qed
  have short: "length ps < 2 \<longrightarrow> distance (recordFixes ps) = 0"
  proof
    assume "length ps < 2"
    then have "ps = [] \<or> (\<exists>x. ps = [x])"
      by (cases ps) (auto simp: length_Suc_conv)
    then show "distance (recordFixes ps) = 0"
      by (auto simp: distance_recordFixes)
  qed
  show ?thesis
    using sum pos rd short calculateDistance_meridian [of lat1 lat2 lon]
    by (simp add: stepDistance_def)
qed

lemma fixA_fixB: "calculateDistance 0 0 (11 / 100000) 0 = Some (6371 * ((11 / 100000) * pi / 180))"
  using calculateDistance_meridian [of 0 "11 / 100000" 0] by simp

lemma fixA_fixA: "calculateDistance 0 0 0 0 = Some 0"
  using calculateDistance_meridian [of 0 0 0] by simp

theorem recorded_distance_witness:
  "length [fixA] < 2
   \<and> calculateDistance (lat fixA) (lng fixA) (lat fixA) (lng fixA) = Some 0 \<and> (0::real) < 0.005
   \<and> calculateDistance (lat fixA) (lng fixA) (lat fixB) (lng fixB)
        = Some (6371 * ((11 / 100000) * pi / 180))
   \<and> 0.005 < 6371 * ((11 / 100000) * pi / 180)
   \<and> (0::real) \<le> 11 / 100000 \<and> (11 / 100000 :: real) - 0 < 180
   \<and> distance (recordFixes [fixA]) = 0
   \<and> stepDistance fixA fixA = 0
   \<and> stepDistance fixA fixB = 6371 * ((11 / 100000) * pi / 180)"
proof -
  have big: "0.005 < 6371 * ((11 / 100000) * pi / 180)"
    using pi_ge_two by simp
  show ?thesis
    using recorded_distance [of "[fixA]" "[]" fixA fixA 0 fixA fixB
        "6371 * ((11 / 100000) * pi / 180)" 0 "11 / 100000" 0] big fixA_fixB fixA_fixA
    by (simp add: fixA_def fixB_def)
qed


lemma withinFiveMeters_same_place:
  "lat q = lat p \<Longrightarrow> lng q = lng p \<Longrightarrow> -90 \<le> lat p \<Longrightarrow> withinFiveMeters p q"
  using calculateDistance_meridian [of "lat p" "lat p" "lng p"]
  by (simp add: withinFiveMeters_def)

text \<open>
  Claim C4, amended.  Let \<open>q\<close> be a fix within 5 meters of \<open>p\<close>.  Appending \<open>q\<close> to a
  sequence that ends in \<open>p\<close> leaves the recorded distance unchanged.  Inserting \<open>q\<close>
  between \<open>p\<close> and its successor \<open>r\<close> replaces the contribution of the step from \<open>p\<close>
  to \<open>r\<close> by that of the step from \<open>q\<close> to \<open>r\<close>; the distance is unchanged when these two
  contributions are equal, in particular when \<open>q\<close> has the coordinates of \<open>p\<close>.
\<close>

theorem insert_near_fix:
  "withinFiveMeters p q \<Longrightarrow>
     distance (recordFixes (xs @ [p, q])) = distance (recordFixes (xs @ [p]))
   \<and> distance (recordFixes (xs @ p # q # r # ys)) =
       distance (recordFixes (xs @ p # r # ys)) - stepDistance p r + stepDistance q r
   \<and> (stepDistance q r = stepDistance p r \<longrightarrow>
        distance (recordFixes (xs @ p # q # r # ys)) = distance (recordFixes (xs @ p # r # ys)))
   \<and> (lat q = lat p \<and> lng q = lng p \<longrightarrow>
        distance (recordFixes (xs @ p # q # r # ys)) = distance (recordFixes (xs @ p # r # ys)))"
proof -
  assume near: "withinFiveMeters p q"
  have zero: "stepDistance p q = 0"
    using near by (rule stepDistance_within)
  have ins: "distance (recordFixes (xs @ p # q # r # ys)) =
       distance (recordFixes (xs @ p # r # ys)) - stepDistance p r + stepDistance q r"
    by (simp add: distance_recordFixes pathDistance_insert zero)
  have app: "distance (recordFixes (xs @ [p, q])) = distance (recordFixes (xs @ [p]))"
    by (simp add: distance_recordFixes pathDistance_snoc2 zero)
  show ?thesis
    using ins app stepDistance_same_place [of q p r] by simp
qed

lemma fixA_fixQ: "calculateDistance 0 0 (3 / 100000) 0 = Some (6371 * ((3 / 100000) * pi / 180))"
  using calculateDistance_meridian [of 0 "3 / 100000" 0] by simp

lemma fixQ_fixB:
  "calculateDistance (3 / 100000) 0 (11 / 100000) 0 = Some (6371 * ((8 / 100000) * pi / 180))"
  using calculateDistance_meridian [of "3 / 100000" "11 / 100000" 0] by simp

lemma near_A_Q: "withinFiveMeters fixA fixQ"
proof -
  have "6371 * ((3 / 100000) * pi / 180) \<le> 0.005"
    using pi_less_4 by simp
  then show ?thesis
    by (simp add: withinFiveMeters_def fixA_def fixQ_def fixA_fixQ)
qed

lemma step_A_B: "stepDistance fixA fixB = 6371 * ((11 / 100000) * pi / 180)"
proof -
  have "0.005 < 6371 * ((11 / 100000) * pi / 180)"
    using pi_ge_two by simp
  then show ?thesis
    by (simp add: stepDistance_def fixA_def fixB_def fixA_fixB)
qed

lemma step_Q_B: "stepDistance fixQ fixB = 6371 * ((8 / 100000) * pi / 180)"
proof -
  have "0.005 < 6371 * ((8 / 100000) * pi / 180)"
    using pi_ge_two by simp
  then show ?thesis
    by (simp add: stepDistance_def fixQ_def fixB_def fixQ_fixB)
qed

lemma near_A_A: "withinFiveMeters fixA (fixA\<lparr>timestamp := 500\<rparr>)"
  by (rule withinFiveMeters_same_place) (simp_all add: fixA_def)

theorem insert_near_fix_witness:
  "withinFiveMeters fixA (fixA\<lparr>timestamp := 500\<rparr>)
   \<and> lat (fixA\<lparr>timestamp := 500\<rparr>) = lat fixA \<and> lng (fixA\<lparr>timestamp := 500\<rparr>) = lng fixA
   \<and> stepDistance (fixA\<lparr>timestamp := 500\<rparr>) fixB = stepDistance fixA fixB
   \<and> distance (recordFixes [fixA, fixA\<lparr>timestamp := 500\<rparr>]) = distance (recordFixes [fixA])
   \<and> distance (recordFixes [fixA, fixA\<lparr>timestamp := 500\<rparr>, fixB]) =
       distance (recordFixes [fixA, fixB])"
  using insert_near_fix [OF near_A_A, of "[]" fixB "[]"] near_A_A
    stepDistance_same_place [of "fixA\<lparr>timestamp := 500\<rparr>" fixA fixB]
  by simp

text \<open>
  Claim C4 as stated fails: \<open>fixQ\<close> is within 5 meters of \<open>fixA\<close>, and inserting it
  between \<open>fixA\<close> and \<open>fixB\<close> changes the recorded distance (from about 12.2 m to
  about 8.9 m), because each step is measured from the last recorded fix.
\<close>

theorem insert_near_fix_counterexample:
  "withinFiveMeters fixA fixQ
   \<and> distance (recordFixes [fixA, fixQ, fixB]) \<noteq> distance (recordFixes [fixA, fixB])"
proof -
  have with_Q: "distance (recordFixes [fixA, fixQ, fixB]) = 6371 * ((8 / 100000) * pi / 180)"
    using near_A_Q by (simp add: distance_recordFixes stepDistance_within step_Q_B)
  have without_Q: "distance (recordFixes [fixA, fixB]) = 6371 * ((11 / 100000) * pi / 180)"
    by (simp add: distance_recordFixes step_A_B)
  have "6371 * ((8 / 100000) * pi / 180) \<noteq> 6371 * ((11 / 100000) * pi / 180)"
    using pi_gt_zero by simp
  then have "distance (recordFixes [fixA, fixQ, fixB]) \<noteq> distance (recordFixes [fixA, fixB])"
    unfolding with_Q without_Q .
  then show ?thesis
    using near_A_Q by simp
qed

text \<open>
  Claim C7.  The average pace and the current pace are \<open>(duration / 60) / distance\<close>
  when the distance is positive, and 0 when the distance is 0; in every case the
  result is a finite number, never an infinity or NaN from a division by zero.
\<close>

theorem pace_defined:
  "(0 < km \<longrightarrow> avgPace dur km = Finite ((real dur / 60) / km)
                \<and> currentPace dur km = Finite ((real dur / 60) / km))
   \<and> (km = 0 \<longrightarrow> avgPace dur km = Finite 0 \<and> currentPace dur km = Finite 0)
   \<and> (\<exists>r. avgPace dur km = Finite r) \<and> (\<exists>r. currentPace dur km = Finite r)"
  by (simp add: avgPace_def currentPace_def js_div_def)

theorem pace_defined_witness:
  "(0::real) < 2 \<and> avgPace 600 2 = Finite 5 \<and> currentPace 600 2 = Finite 5
   \<and> avgPace 600 0 = Finite 0 \<and> currentPace 600 0 = Finite 0"
  using pace_defined [of 2 600] pace_defined [of 0 600] by simp

lemma elevationStep_append:
  assumes "i < length ps"
  shows "elevationStep (ps @ [p]) g i = elevationStep ps g i"
proof -
  have cur: "(ps @ [p]) ! i = ps ! i"
    using assms by (simp add: nth_append)
  have before: "(ps @ [p]) ! (i - 1) = ps ! (i - 1)"
    using assms by (simp add: nth_append)
  show ?thesis
    unfolding elevationStep_def cur before ..
qed

lemma elevationGain_snoc:
  "elevationGain (ps @ [p]) =
     elevationGain ps +
     (if ps = [] \<or> falsy (altitude p) \<or> falsy (altitude (last ps)) then 0
      else positiveDelta (altitude (last ps)) (altitude p))"
proof -
  have same: "foldl (elevationStep (ps @ [p])) 0 [0..<length ps] = elevationGain ps"
    unfolding elevationGain_def
    by (rule foldl_cong) (simp_all add: elevationStep_append)
  have "elevationGain (ps @ [p]) =
          elevationStep (ps @ [p]) (elevationGain ps) (length ps)"
    by (simp add: elevationGain_def same [unfolded elevationGain_def])
  also have "\<dots> = elevationGain ps +
     (if ps = [] \<or> falsy (altitude p) \<or> falsy (altitude (last ps)) then 0
      else positiveDelta (altitude (last ps)) (altitude p))"
  proof (cases "ps = []")
    case True
    then show ?thesis by (simp add: elevationStep_def)
  next
    case False
    have cur: "(ps @ [p]) ! length ps = p"
      by simp
    have before: "(ps @ [p]) ! (length ps - 1) = last ps"
      using False by (simp add: nth_append last_conv_nth)
    have pos: "length ps \<noteq> 0"
      using False by simp
    show ?thesis
      unfolding elevationStep_def cur before
      using False pos
      by (cases "altitude p"; cases "altitude (last ps)")
         (simp_all add: positiveDelta_def falsy_def)
  qed
  finally show ?thesis .
qed

lemma spec_elevationGain_simps:
  "spec_elevationGain [] = 0"
  "spec_elevationGain [x] = 0"
  "spec_elevationGain (x # y # zs) = positiveDelta x y + spec_elevationGain (y # zs)"
  by (simp_all add: spec_elevationGain_def)

lemma spec_elevationGain_snoc:
  "spec_elevationGain (alts @ [a]) =
     spec_elevationGain alts + (if alts = [] then 0 else positiveDelta (last alts) a)"
  by (induction alts rule: induct_list012) (simp_all add: spec_elevationGain_simps)

lemma elevationGain_nonzero_altitudes:
  "\<forall>p\<in>set ps. altitude p \<noteq> Some 0 \<Longrightarrow>
   elevationGain ps = spec_elevationGain (map altitude ps)"
proof (induction ps rule: rev_induct)
  case Nil
  then show ?case by (simp add: elevationGain_def spec_elevationGain_simps)
next
  case (snoc p ps)
  then have ih: "elevationGain ps = spec_elevationGain (map altitude ps)"
    by simp
  have nz: "altitude p \<noteq> Some 0" using snoc.prems by simp
  have nzl: "ps \<noteq> [] \<Longrightarrow> altitude (last ps) \<noteq> Some 0" using snoc.prems by simp
  show ?case
    using nz nzl
    by (auto simp: elevationGain_snoc spec_elevationGain_snoc ih last_map falsy_def
        positiveDelta_def split: option.splits)
qed

text \<open>
  Claim C8, evaluated where the code departs from it.  The browser reports the
  altitudes 0 m and then 10 m, so neither altitude is missing and the sum of the
  positive consecutive differences is 10.  The recorder stores the first fix without an
  altitude, and the reducer of \<^verbatim>\<open>saveActivity\<close> also skips a stored altitude of 0: the
  elevation gain computed is 0.
\<close>

theorem elevationGain_sea_level:
  "positions (recordReadings [readingSea, readingHill]) =
     [\<lparr>lat = 0, lng = 0, timestamp = 0, altitude = None\<rparr>,
      \<lparr>lat = 0, lng = 0, timestamp = 1000, altitude = Some 10\<rparr>]
   \<and> elevationGain (positions (recordReadings [readingSea, readingHill])) = 0
   \<and> elevationGain [\<lparr>lat = 0, lng = 0, timestamp = 0, altitude = Some 0\<rparr>,
                     \<lparr>lat = 0, lng = 0, timestamp = 1000, altitude = Some 10\<rparr>] = 0
   \<and> spec_elevationGain (map coords_altitude [readingSea, readingHill]) = 10"
  by (simp add: recordReadings_def onPosition_def positions_addPosition newPos_def
      orUndefined_def startRecording_def readingSea_def readingHill_def
      elevationGain_def elevationStep_def falsy_def upt_rec
      spec_elevationGain_def positiveDelta_def)

section \<open>Day buckets: properties\<close>

lemma mapGet_mapSet_same: "mapGet (mapSet m k v) k = Some v"
  by (induction m k v rule: mapSet.induct) simp_all

lemma keys_mapSet:
  "map fst (mapSet m k v) = (if k \<in> set (map fst m) then map fst m else map fst m @ [k])"
  by (induction m k v rule: mapSet.induct) auto

lemma sum_mapSet:
  fixes f :: "'v \<Rightarrow> real"
  shows "(\<Sum>(k, v)\<leftarrow>mapSet m key new. f v) =
           (\<Sum>(k, v)\<leftarrow>m. f v) - (case mapGet m key of Some old \<Rightarrow> f old | None \<Rightarrow> 0) + f new"
  by (induction m key new rule: mapSet.induct) simp_all

lemma sum_addMealToDate:
  "(\<Sum>(k, t)\<leftarrow>addMealToDate m meal. calories t) =
     (\<Sum>(k, t)\<leftarrow>m. calories t) + calories (mealTotals (foodEntries meal))"
  "(\<Sum>(k, t)\<leftarrow>addMealToDate m meal. protein t) =
     (\<Sum>(k, t)\<leftarrow>m. protein t) + protein (mealTotals (foodEntries meal))"
  "(\<Sum>(k, t)\<leftarrow>addMealToDate m meal. carbs t) =
     (\<Sum>(k, t)\<leftarrow>m. carbs t) + carbs (mealTotals (foodEntries meal))"
  "(\<Sum>(k, t)\<leftarrow>addMealToDate m meal. fats t) =
     (\<Sum>(k, t)\<leftarrow>m. fats t) + fats (mealTotals (foodEntries meal))"
  by (cases "mapGet m (dateKey (m_date meal))";
      simp add: addMealToDate_def Let_def sum_mapSet)+

lemma sum_foldl_addMealToDate:
  "(\<Sum>(k, t)\<leftarrow>foldl addMealToDate m meals. calories t) =
     (\<Sum>(k, t)\<leftarrow>m. calories t) + (\<Sum>meal\<leftarrow>meals. calories (mealTotals (foodEntries meal)))"
  "(\<Sum>(k, t)\<leftarrow>foldl addMealToDate m meals. protein t) =
     (\<Sum>(k, t)\<leftarrow>m. protein t) + (\<Sum>meal\<leftarrow>meals. protein (mealTotals (foodEntries meal)))"
  "(\<Sum>(k, t)\<leftarrow>foldl addMealToDate m meals. carbs t) =
     (\<Sum>(k, t)\<leftarrow>m. carbs t) + (\<Sum>meal\<leftarrow>meals. carbs (mealTotals (foodEntries meal)))"
  "(\<Sum>(k, t)\<leftarrow>foldl addMealToDate m meals. fats t) =
     (\<Sum>(k, t)\<leftarrow>m. fats t) + (\<Sum>meal\<leftarrow>meals. fats (mealTotals (foodEntries meal)))"
  by (induction meals arbitrary: m; simp add: sum_addMealToDate add.assoc)+

lemma keys_addMealToDate:
  "map fst (addMealToDate m meal) =
     (if dateKey (m_date meal) \<in> set (map fst m) then map fst m
      else map fst m @ [dateKey (m_date meal)])"
  by (simp add: addMealToDate_def Let_def keys_mapSet)

lemma keys_foldl_addMealToDate:
  "set (map fst (foldl addMealToDate m meals)) =
     set (map fst m) \<union> set (map (\<lambda>meal. dateKey (m_date meal)) meals)"
  by (induction meals arbitrary: m) (auto simp: keys_addMealToDate simp del: set_map)

lemma distinct_foldl_addMealToDate:
  "distinct (map fst m) \<Longrightarrow> distinct (map fst (foldl addMealToDate m meals))"
  by (induction meals arbitrary: m) (simp_all add: keys_addMealToDate)

lemma addMealToDay_eq:
  "addMealToDay m meal =
     (let key = dateKey (m_date meal);
          d = (case mapGet m key of
                 Some e \<Rightarrow> e
               | None \<Rightarrow> \<lparr>dd_date = key, dd_totalCalories = 0, dd_totalProtein = 0,
                           dd_totalCarbs = 0, dd_totalFats = 0, dd_meals = []\<rparr>)
      in mapSet (if mapHas m key then m else mapSet m key d) key
               (d\<lparr>dd_totalCalories := dd_totalCalories d + totalCalories meal,
                  dd_totalProtein := dd_totalProtein d + totalProtein meal,
                  dd_totalCarbs := dd_totalCarbs d + totalCarbs meal,
                  dd_totalFats := dd_totalFats d + totalFats meal,
                  dd_meals := dd_meals d @ map fe_foodName (foodEntries meal)\<rparr>))"
  by (cases "mapGet m (dateKey (m_date meal))")
     (simp_all add: addMealToDay_def Let_def mapHas_def mapGet_mapSet_same)

lemma sum_addMealToDay:
  "(\<Sum>(k, d)\<leftarrow>addMealToDay m meal. dd_totalCalories d) =
     (\<Sum>(k, d)\<leftarrow>m. dd_totalCalories d) + totalCalories meal"
  "(\<Sum>(k, d)\<leftarrow>addMealToDay m meal. dd_totalProtein d) =
     (\<Sum>(k, d)\<leftarrow>m. dd_totalProtein d) + totalProtein meal"
  "(\<Sum>(k, d)\<leftarrow>addMealToDay m meal. dd_totalCarbs d) =
     (\<Sum>(k, d)\<leftarrow>m. dd_totalCarbs d) + totalCarbs meal"
  "(\<Sum>(k, d)\<leftarrow>addMealToDay m meal. dd_totalFats d) =
     (\<Sum>(k, d)\<leftarrow>m. dd_totalFats d) + totalFats meal"
  by (cases "mapGet m (dateKey (m_date meal))";
      simp add: addMealToDay_eq Let_def mapHas_def sum_mapSet mapGet_mapSet_same)+

lemma sum_foldl_addMealToDay:
  "(\<Sum>(k, d)\<leftarrow>foldl addMealToDay m meals. dd_totalCalories d) =
     (\<Sum>(k, d)\<leftarrow>m. dd_totalCalories d) + (\<Sum>meal\<leftarrow>meals. totalCalories meal)"
  "(\<Sum>(k, d)\<leftarrow>foldl addMealToDay m meals. dd_totalProtein d) =
     (\<Sum>(k, d)\<leftarrow>m. dd_totalProtein d) + (\<Sum>meal\<leftarrow>meals. totalProtein meal)"
  "(\<Sum>(k, d)\<leftarrow>foldl addMealToDay m meals. dd_totalCarbs d) =
     (\<Sum>(k, d)\<leftarrow>m. dd_totalCarbs d) + (\<Sum>meal\<leftarrow>meals. totalCarbs meal)"
  "(\<Sum>(k, d)\<leftarrow>foldl addMealToDay m meals. dd_totalFats d) =
     (\<Sum>(k, d)\<leftarrow>m. dd_totalFats d) + (\<Sum>meal\<leftarrow>meals. totalFats meal)"
  by (induction meals arbitrary: m; simp add: sum_addMealToDay add.assoc)+

lemma sum_snd: "sum_list (map (f \<circ> snd) m) = (\<Sum>(k, d)\<leftarrow>m. f d)"
  by (induction m) auto

text \<open>
  Claim C6.  Summing a field over all day buckets gives the sum of that field over all
  input records: for the buckets of the charts route, the four macro totals of the
  meals' food entries; for the buckets of the nutrition insights route, the four
  stored totals of the meals.  No day has two buckets, and the days with a bucket are
  exactly the days of the meals.
\<close>

theorem day_buckets_conserve_sums:
  "(\<Sum>(day, t)\<leftarrow>nutritionByDate meals. calories t) =
     (\<Sum>meal\<leftarrow>meals. calories (mealTotals (foodEntries meal)))
   \<and> (\<Sum>(day, t)\<leftarrow>nutritionByDate meals. protein t) =
     (\<Sum>meal\<leftarrow>meals. protein (mealTotals (foodEntries meal)))
   \<and> (\<Sum>(day, t)\<leftarrow>nutritionByDate meals. carbs t) =
     (\<Sum>meal\<leftarrow>meals. carbs (mealTotals (foodEntries meal)))
   \<and> (\<Sum>(day, t)\<leftarrow>nutritionByDate meals. fats t) =
     (\<Sum>meal\<leftarrow>meals. fats (mealTotals (foodEntries meal)))
   \<and> (\<Sum>d\<leftarrow>weeklyData meals. dd_totalCalories d) = (\<Sum>meal\<leftarrow>meals. totalCalories meal)
   \<and> (\<Sum>d\<leftarrow>weeklyData meals. dd_totalProtein d) = (\<Sum>meal\<leftarrow>meals. totalProtein meal)
   \<and> (\<Sum>d\<leftarrow>weeklyData meals. dd_totalCarbs d) = (\<Sum>meal\<leftarrow>meals. totalCarbs meal)
   \<and> (\<Sum>d\<leftarrow>weeklyData meals. dd_totalFats d) = (\<Sum>meal\<leftarrow>meals. totalFats meal)
   \<and> distinct (map fst (nutritionByDate meals))
   \<and> set (map fst (nutritionByDate meals)) = set (map (\<lambda>meal. dateKey (m_date meal)) meals)"
  by (simp add: nutritionByDate_def weeklyData_def dailyData_def sum_snd
      sum_foldl_addMealToDate sum_foldl_addMealToDay keys_foldl_addMealToDate
      distinct_foldl_addMealToDate del: set_map)

section \<open>Routes: properties\<close>

lemma ranks_enumerate:
  "map (\<lambda>(index, p). f index) (enumerate 0 xs) = map f [0..<length xs]"
proof -
  have "map (\<lambda>(index, p). f index) (enumerate 0 xs) = map f (map fst (enumerate 0 xs))"
    unfolding map_map comp_def case_prod_unfold ..
  then show ?thesis
    unfolding map_fst_enumerate by simp
qed

lemma users_enumerate:
  "map (\<lambda>(index, p). f p) (enumerate 0 xs) = map f xs"
proof -
  have "map (\<lambda>(index, p). f p) (enumerate 0 xs) = map f (map snd (enumerate 0 xs))"
    unfolding map_map comp_def case_prod_unfold ..
  then show ?thesis
    unfolding map_snd_enumerate .
qed

lemma GET_leaderboard_ok:
  assumes "GET_leaderboard sessionEmail challengeId db = Json status body"
  shows "leaderboard body =
           map (\<lambda>(index, p).
                  \<lparr>le_userId = p_userId p, le_userName = ''Test User'',
                   le_userEmail = ''test@test.com'', progress = 0, progressPercentage = 0,
                   le_joinedAt = joinedAt p, isCompleted = False, rank = index + 1\<rparr>)
               (enumerate 0 (participantsOf db challengeId))"
  using assms
  by (auto simp: GET_leaderboard_def split: option.splits)

lemma leaderboard_rank_list:
  assumes "GET_leaderboard sessionEmail challengeId db = Json status body"
  shows "map rank (leaderboard body) = [1..<Suc (length (participantsOf db challengeId))]"
proof -
  have "map rank (leaderboard body) =
          map (\<lambda>(index, p). index + 1) (enumerate 0 (participantsOf db challengeId))"
    by (simp add: GET_leaderboard_ok [OF assms] comp_def case_prod_unfold)
  also have "\<dots> = map Suc [0..<length (participantsOf db challengeId)]"
    using ranks_enumerate [of Suc] by simp
  also have "\<dots> = [1..<Suc (length (participantsOf db challengeId))]"
    by (simp add: map_Suc_upt)
  finally show ?thesis .
qed

text \<open>
  Claim C5.  When the leaderboard request succeeds for a challenge with \<open>N\<close>
  participants, the ranks of the entries are 1, 2, ..., \<open>N\<close> in this order: the
  leaderboard has one entry per participant, no rank occurs twice and the set of
  ranks is \<open>{1..N}\<close>.  For a logged-in user and an existing challenge with no
  participants the answer is the status 200 with an empty leaderboard, not an error.
\<close>

theorem leaderboard_ranks:
  "(GET_leaderboard sessionEmail challengeId db = Json status body \<longrightarrow>
      map rank (leaderboard body) = [1..<Suc (length (participantsOf db challengeId))]
      \<and> length (leaderboard body) = length (participantsOf db challengeId)
      \<and> map le_userId (leaderboard body) = map p_userId (participantsOf db challengeId)
      \<and> distinct (map rank (leaderboard body))
      \<and> set (map rank (leaderboard body)) = {1..length (participantsOf db challengeId)})
   \<and> (truthy sessionEmail = Some email
        \<and> find (\<lambda>u. u_email u = email) (userTable db) = Some user
        \<and> find (\<lambda>c. c_id c = challengeId) (challengeTable db) = Some c
        \<and> participantsOf db challengeId = [] \<longrightarrow>
      GET_leaderboard sessionEmail challengeId db = Json 200 \<lparr>lb_challenge = c, leaderboard = []\<rparr>)"
proof (intro conjI impI)
  assume ok: "GET_leaderboard sessionEmail challengeId db = Json status body"
  show ranks: "map rank (leaderboard body) = [1..<Suc (length (participantsOf db challengeId))]"
    by (rule leaderboard_rank_list [OF ok])
  show "length (leaderboard body) = length (participantsOf db challengeId)"
    by (simp add: GET_leaderboard_ok [OF ok])
  show "map le_userId (leaderboard body) = map p_userId (participantsOf db challengeId)"
    using users_enumerate [of p_userId "participantsOf db challengeId"]
    by (simp add: GET_leaderboard_ok [OF ok] comp_def case_prod_unfold)
  show "distinct (map rank (leaderboard body))"
    by (simp only: ranks distinct_upt)
  show "set (map rank (leaderboard body)) = {1..length (participantsOf db challengeId)}"
    by (simp only: ranks) auto
next
  assume "truthy sessionEmail = Some email
        \<and> find (\<lambda>u. u_email u = email) (userTable db) = Some user
        \<and> find (\<lambda>c. c_id c = challengeId) (challengeTable db) = Some c
        \<and> participantsOf db challengeId = []"
  then show "GET_leaderboard sessionEmail challengeId db = Json 200 \<lparr>lb_challenge = c, leaderboard = []\<rparr>"
    by (simp add: GET_leaderboard_def)
qed

lemma example_leaderboard:
  "GET_leaderboard (Some ''ann@example.org'') ''c1'' exampleDb =
     Json 200
       \<lparr>lb_challenge = exampleChallenge,
        leaderboard =
          [\<lparr>le_userId = ''u1'', le_userName = ''Test User'', le_userEmail = ''test@test.com'',
            progress = 0, progressPercentage = 0, le_joinedAt = 10, isCompleted = False,
            rank = 1\<rparr>,
           \<lparr>le_userId = ''u2'', le_userName = ''Test User'', le_userEmail = ''test@test.com'',
            progress = 0, progressPercentage = 0, le_joinedAt = 20, isCompleted = False,
            rank = 2\<rparr>]\<rparr>"
  by (simp add: GET_leaderboard_def truthy_def exampleDb_def exampleChallenge_def
      participantsOf_def enumerate_eq_zip upt_rec)

theorem leaderboard_ranks_witness:
  "GET_leaderboard (Some ''ann@example.org'') ''c1'' exampleDb =
     Json 200
       \<lparr>lb_challenge = exampleChallenge,
        leaderboard =
          [\<lparr>le_userId = ''u1'', le_userName = ''Test User'', le_userEmail = ''test@test.com'',
            progress = 0, progressPercentage = 0, le_joinedAt = 10, isCompleted = False,
            rank = 1\<rparr>,
           \<lparr>le_userId = ''u2'', le_userName = ''Test User'', le_userEmail = ''test@test.com'',
            progress = 0, progressPercentage = 0, le_joinedAt = 20, isCompleted = False,
            rank = 2\<rparr>]\<rparr>
   \<and> length (participantsOf exampleDb ''c1'') = 2
   \<and> truthy (Some ''ann@example.org'') = Some ''ann@example.org''
   \<and> find (\<lambda>u. u_email u = ''ann@example.org'') (userTable emptyChallengeDb) =
       Some \<lparr>u_id = ''u1'', u_email = ''ann@example.org''\<rparr>
   \<and> find (\<lambda>c. c_id c = ''c1'') (challengeTable emptyChallengeDb) = Some exampleChallenge
   \<and> participantsOf emptyChallengeDb ''c1'' = []
   \<and> GET_leaderboard (Some ''ann@example.org'') ''c1'' emptyChallengeDb =
       Json 200 \<lparr>lb_challenge = exampleChallenge, leaderboard = []\<rparr>"
proof -
  have auth: "truthy (Some ''ann@example.org'') = Some ''ann@example.org''"
    by (simp add: truthy_def)
  have usr: "find (\<lambda>u. u_email u = ''ann@example.org'') (userTable emptyChallengeDb) =
       Some \<lparr>u_id = ''u1'', u_email = ''ann@example.org''\<rparr>"
    by (simp add: emptyChallengeDb_def exampleDb_def)
  have ch: "find (\<lambda>c. c_id c = ''c1'') (challengeTable emptyChallengeDb) = Some exampleChallenge"
    by (simp add: emptyChallengeDb_def exampleDb_def exampleChallenge_def)
  have none: "participantsOf emptyChallengeDb ''c1'' = []"
    by (simp add: emptyChallengeDb_def participantsOf_def)
  have two: "length (participantsOf exampleDb ''c1'') = 2"
    by (simp add: exampleDb_def participantsOf_def)
  show ?thesis
    using leaderboard_ranks [of "Some ''ann@example.org''" "''c1''" emptyChallengeDb 200
        "\<lparr>lb_challenge = exampleChallenge, leaderboard = []\<rparr>" "''ann@example.org''"
        "\<lparr>u_id = ''u1'', u_email = ''ann@example.org''\<rparr>" exampleChallenge]
      example_leaderboard auth usr ch none two
    by simp
qed

text \<open>
  Claim C2, amended.  When the leaderboard request succeeds, the leaderboard lists the
  participants of the challenge in the order of the participation table, and every
  entry reports progress 0, progress percentage 0 and no completion, whatever the
  challenge type and whatever the user has recorded.
\<close>

theorem leaderboard_progress_placeholder:
  "GET_leaderboard sessionEmail challengeId db = Json status body \<Longrightarrow>
     map le_userId (leaderboard body) = map p_userId (participantsOf db challengeId)
     \<and> (\<forall>entry\<in>set (leaderboard body).
           progress entry = 0 \<and> progressPercentage entry = 0 \<and> \<not> isCompleted entry)"
proof -
  assume ok: "GET_leaderboard sessionEmail challengeId db = Json status body"
  have "map le_userId (leaderboard body) = map p_userId (participantsOf db challengeId)"
    using users_enumerate [of p_userId "participantsOf db challengeId"]
    by (simp add: GET_leaderboard_ok [OF ok] comp_def case_prod_unfold)
  moreover have "\<forall>entry\<in>set (leaderboard body).
           progress entry = 0 \<and> progressPercentage entry = 0 \<and> \<not> isCompleted entry"
    by (auto simp: GET_leaderboard_ok [OF ok])
  ultimately show ?thesis by simp
qed

theorem leaderboard_progress_placeholder_witness:
  "GET_leaderboard (Some ''ann@example.org'') ''c1'' exampleDb =
     Json 200
       \<lparr>lb_challenge = exampleChallenge,
        leaderboard =
          [\<lparr>le_userId = ''u1'', le_userName = ''Test User'', le_userEmail = ''test@test.com'',
            progress = 0, progressPercentage = 0, le_joinedAt = 10, isCompleted = False,
            rank = 1\<rparr>,
           \<lparr>le_userId = ''u2'', le_userName = ''Test User'', le_userEmail = ''test@test.com'',
            progress = 0, progressPercentage = 0, le_joinedAt = 20, isCompleted = False,
            rank = 2\<rparr>]\<rparr>
   \<and> map p_userId (participantsOf exampleDb ''c1'') = [''u1'', ''u2'']"
  using leaderboard_progress_placeholder [OF example_leaderboard] example_leaderboard
  by simp

text \<open>
  Claim C2 as stated fails: in the example the first participant of a distance
  challenge has recorded 5 km and 7 km, so the progress the specification describes
  is 12, and the leaderboard reports 0.
\<close>

theorem leaderboard_progress_counterexample:
  "GET_leaderboard (Some ''ann@example.org'') ''c1'' exampleDb =
     Json 200
       \<lparr>lb_challenge = exampleChallenge,
        leaderboard =
          [\<lparr>le_userId = ''u1'', le_userName = ''Test User'', le_userEmail = ''test@test.com'',
            progress = 0, progressPercentage = 0, le_joinedAt = 10, isCompleted = False,
            rank = 1\<rparr>,
           \<lparr>le_userId = ''u2'', le_userName = ''Test User'', le_userEmail = ''test@test.com'',
            progress = 0, progressPercentage = 0, le_joinedAt = 20, isCompleted = False,
            rank = 2\<rparr>]\<rparr>
   \<and> spec_progress exampleChallenge exampleHistory = 12
   \<and> spec_progress exampleChallenge exampleHistory \<noteq> 0"
  using example_leaderboard
  by (simp add: spec_progress_def exampleChallenge_def exampleHistory_def)

lemma goalValue_issue:
  "b_goalValue body = JNumber g \<Longrightarrow> g \<le> 0 \<Longrightarrow>
   TooSmall ''goalValue'' (Some ''Goal value must be positive'') \<in> set (challengeSchema_issues body)"
  by (simp add: challengeSchema_issues_def zNumberPositive_def)

lemma quantity_issue:
  "b_quantity body = JNumber q \<Longrightarrow> q \<le> 0 \<Longrightarrow>
   TooSmall ''quantity'' None \<in> set (foodEntrySchema_issues body)"
  by (simp add: foodEntrySchema_issues_def zNumberPositive_def)

lemma POST_challenge_issues:
  "truthy sid = Some uid \<Longrightarrow> challengeSchema_issues body \<noteq> [] \<Longrightarrow>
   POST_challenge parseDate sid body newId now db =
     (ErrorJson 400 (IssueMessage (hd (challengeSchema_issues body))), db)"
  by (cases "challengeSchema_issues body") (simp_all add: POST_challenge_def)

lemma POST_food_issues:
  "truthy sid = Some uid \<Longrightarrow>
   find (\<lambda>m. m_id m = mealId \<and> m_userId m = uid) (mealTable db) = Some meal \<Longrightarrow>
   foodEntrySchema_issues body \<noteq> [] \<Longrightarrow>
   POST_food sid mealId body newId db =
     (ErrorJson 400 (IssueMessage (hd (foodEntrySchema_issues body))), db)"
  by (cases "foodEntrySchema_issues body") (simp_all add: POST_food_def)

text \<open>
  Claim C9, amended.  A challenge body whose goal value is a non-positive number has
  the validation issue ``Goal value must be positive'', which is the first issue when
  the keys before it are valid; a logged-in request with such a body is answered 400
  with the message of the first issue, and a request without login 401; the database
  is left as it was.  A food body whose quantity is a non-positive number has the
  issue of the quantity; the request is answered 401 without login, 404 when the meal
  is not one of the user's, and 400 with the message of the first issue otherwise; the
  database is left as it was.
\<close>

theorem invalid_create_rejected:
  "(b_goalValue body = JNumber g \<and> g \<le> 0 \<longrightarrow>
      TooSmall ''goalValue'' (Some ''Goal value must be positive'')
        \<in> set (challengeSchema_issues body)
      \<and> (zStringMin1 ''name'' ''Name is required'' (b_name body) = []
           \<and> zStringOptionalNullable ''description'' (b_description body) = []
           \<and> zEnum ''challengeType'' [''steps'', ''distance'', ''weight_loss'', ''workout_count'']
                (b_challengeType body) = [] \<longrightarrow>
         hd (challengeSchema_issues body) =
           TooSmall ''goalValue'' (Some ''Goal value must be positive''))
      \<and> (truthy sid = None \<longrightarrow>
           POST_challenge parseDate sid body newId now db =
             (ErrorJson 401 (Literal ''Unauthorized''), db))
      \<and> (truthy sid = Some uid \<longrightarrow>
           POST_challenge parseDate sid body newId now db =
             (ErrorJson 400 (IssueMessage (hd (challengeSchema_issues body))), db)))
   \<and> (b_quantity fbody = JNumber q \<and> q \<le> 0 \<longrightarrow>
      TooSmall ''quantity'' None \<in> set (foodEntrySchema_issues fbody)
      \<and> (truthy sid = None \<longrightarrow>
           POST_food sid mealId fbody newId db = (ErrorJson 401 (Literal ''Unauthorized''), db))
      \<and> (truthy sid = Some uid
           \<and> find (\<lambda>m. m_id m = mealId \<and> m_userId m = uid) (mealTable db) = None \<longrightarrow>
           POST_food sid mealId fbody newId db = (ErrorJson 404 (Literal ''Meal not found''), db))
      \<and> (truthy sid = Some uid
           \<and> find (\<lambda>m. m_id m = mealId \<and> m_userId m = uid) (mealTable db) = Some meal \<longrightarrow>
           POST_food sid mealId fbody newId db =
             (ErrorJson 400 (IssueMessage (hd (foodEntrySchema_issues fbody))), db)))"
proof (intro conjI impI)
  assume bad: "b_goalValue body = JNumber g \<and> g \<le> 0"
  then show in_issues: "TooSmall ''goalValue'' (Some ''Goal value must be positive'')
        \<in> set (challengeSchema_issues body)"
    by (simp add: goalValue_issue)
  then have nonempty: "challengeSchema_issues body \<noteq> []"
    by auto
  show "POST_challenge parseDate sid body newId now db =
             (ErrorJson 401 (Literal ''Unauthorized''), db)" if "truthy sid = None"
    using that by (simp add: POST_challenge_def)
  show "POST_challenge parseDate sid body newId now db =
             (ErrorJson 400 (IssueMessage (hd (challengeSchema_issues body))), db)"
    if "truthy sid = Some uid"
    using that nonempty by (rule POST_challenge_issues)
  show "hd (challengeSchema_issues body) =
           TooSmall ''goalValue'' (Some ''Goal value must be positive'')"
    if "zStringMin1 ''name'' ''Name is required'' (b_name body) = []
           \<and> zStringOptionalNullable ''description'' (b_description body) = []
           \<and> zEnum ''challengeType'' [''steps'', ''distance'', ''weight_loss'', ''workout_count'']
                (b_challengeType body) = []"
    using that bad by (simp add: challengeSchema_issues_def zNumberPositive_def)
next
  assume bad: "b_quantity fbody = JNumber q \<and> q \<le> 0"
  then show in_issues: "TooSmall ''quantity'' None \<in> set (foodEntrySchema_issues fbody)"
    by (simp add: quantity_issue)
  then have nonempty: "foodEntrySchema_issues fbody \<noteq> []"
    by auto
  show "POST_food sid mealId fbody newId db = (ErrorJson 401 (Literal ''Unauthorized''), db)"
    if "truthy sid = None"
    using that by (simp add: POST_food_def)
  show "POST_food sid mealId fbody newId db = (ErrorJson 404 (Literal ''Meal not found''), db)"
    if "truthy sid = Some uid
           \<and> find (\<lambda>m. m_id m = mealId \<and> m_userId m = uid) (mealTable db) = None"
    using that by (simp add: POST_food_def)
  show "POST_food sid mealId fbody newId db =
             (ErrorJson 400 (IssueMessage (hd (foodEntrySchema_issues fbody))), db)"
    if "truthy sid = Some uid
           \<and> find (\<lambda>m. m_id m = mealId \<and> m_userId m = uid) (mealTable db) = Some meal"
    using that nonempty POST_food_issues [of sid uid mealId db meal fbody newId] by simp
qed

theorem invalid_create_rejected_witness:
  "b_goalValue badChallengeBody = JNumber (- 5) \<and> (- 5 :: real) \<le> 0
   \<and> truthy (Some ''u1'') = Some ''u1'' \<and> truthy None = None
   \<and> POST_challenge (\<lambda>s. 0) (Some ''u1'') badChallengeBody ''n1'' 0 mealsDb =
       (ErrorJson 400 (IssueMessage (TooSmall ''goalValue'' (Some ''Goal value must be positive''))),
        mealsDb)
   \<and> POST_challenge (\<lambda>s. 0) None badChallengeBody ''n1'' 0 mealsDb =
       (ErrorJson 401 (Literal ''Unauthorized''), mealsDb)
   \<and> b_quantity (oatsBody\<lparr>b_quantity := JNumber 0\<rparr>) = JNumber 0 \<and> (0 :: real) \<le> 0
   \<and> find (\<lambda>m. m_id m = ''A'' \<and> m_userId m = ''u1'') (mealTable mealsDb) =
       Some \<lparr>m_id = ''A'', m_userId = ''u1'', m_date = 0, totalCalories = 0, totalProtein = 0,
             totalCarbs = 0, totalFats = 0\<rparr>
   \<and> POST_food (Some ''u1'') ''A'' (oatsBody\<lparr>b_quantity := JNumber 0\<rparr>) ''n1'' mealsDb =
       (ErrorJson 400 (IssueMessage (TooSmall ''quantity'' None)), mealsDb)
   \<and> find (\<lambda>m. m_id m = ''Z'' \<and> m_userId m = ''u1'') (mealTable mealsDb) = None
   \<and> POST_food (Some ''u1'') ''Z'' (oatsBody\<lparr>b_quantity := JNumber 0\<rparr>) ''n1'' mealsDb =
       (ErrorJson 404 (Literal ''Meal not found''), mealsDb)
   \<and> POST_food None ''A'' (oatsBody\<lparr>b_quantity := JNumber 0\<rparr>) ''n1'' mealsDb =
       (ErrorJson 401 (Literal ''Unauthorized''), mealsDb)"
proof -
  have t: "truthy (Some ''u1'') = Some ''u1''" "truthy None = None"
    by (simp_all add: truthy_def)
  have g: "b_goalValue badChallengeBody = JNumber (- 5)"
    by (simp add: badChallengeBody_def)
  have q: "b_quantity (oatsBody\<lparr>b_quantity := JNumber 0\<rparr>) = JNumber 0"
    by simp
  have hc: "hd (challengeSchema_issues badChallengeBody) =
              TooSmall ''goalValue'' (Some ''Goal value must be positive'')"
    by (simp add: challengeSchema_issues_def badChallengeBody_def zStringMin1_def
        zStringOptionalNullable_def zEnum_def zNumberPositive_def zString_def
        zBooleanOptional_def)
  have hf: "hd (foodEntrySchema_issues (oatsBody\<lparr>b_quantity := JNumber 0\<rparr>)) =
              TooSmall ''quantity'' None"
    by (simp add: foodEntrySchema_issues_def oatsBody_def zString_def
        zStringOptionalNullable_def zNumberPositive_def zNumber_def
        zNumberOptionalNullable_def)
  have fa: "find (\<lambda>m. m_id m = ''A'' \<and> m_userId m = ''u1'') (mealTable mealsDb) =
       Some \<lparr>m_id = ''A'', m_userId = ''u1'', m_date = 0, totalCalories = 0, totalProtein = 0,
             totalCarbs = 0, totalFats = 0\<rparr>"
    by (simp add: mealsDb_def)
  have fz: "find (\<lambda>m. m_id m = ''Z'' \<and> m_userId m = ''u1'') (mealTable mealsDb) = None"
    by (simp add: mealsDb_def)
  show ?thesis
    using
      invalid_create_rejected [where body = badChallengeBody and g = "- 5"
        and sid = "Some ''u1''" and parseDate = "\<lambda>s. 0" and newId = "''n1''" and now = 0
        and db = mealsDb and uid = "''u1''" and fbody = "oatsBody\<lparr>b_quantity := JNumber 0\<rparr>"
        and q = 0 and mealId = "''A''"
        and meal = "\<lparr>m_id = ''A'', m_userId = ''u1'', m_date = 0, totalCalories = 0,
             totalProtein = 0, totalCarbs = 0, totalFats = 0\<rparr>"]
      invalid_create_rejected [where body = badChallengeBody and g = "- 5"
        and sid = None and parseDate = "\<lambda>s. 0" and newId = "''n1''" and now = 0
        and db = mealsDb and fbody = "oatsBody\<lparr>b_quantity := JNumber 0\<rparr>"
        and q = 0 and mealId = "''A''"]
      invalid_create_rejected [where body = badChallengeBody and g = "- 5"
        and sid = "Some ''u1''" and parseDate = "\<lambda>s. 0" and newId = "''n1''" and now = 0
        and db = mealsDb and uid = "''u1''" and fbody = "oatsBody\<lparr>b_quantity := JNumber 0\<rparr>"
        and q = 0 and mealId = "''Z''"]
      t g q hc hf fa fz
    by simp
qed

text \<open>
  Claim C9 as stated fails: a challenge request with the goal value -5 and no login is
  answered 401, and a food request with quantity 0 for a meal that does not exist is
  answered 404, not 400.
\<close>

theorem invalid_create_counterexample:
  "b_goalValue badChallengeBody = JNumber (- 5)
   \<and> POST_challenge (\<lambda>s. 0) None badChallengeBody ''c9'' 0 mealsDb =
       (ErrorJson 401 (Literal ''Unauthorized''), mealsDb)
   \<and> b_quantity (oatsBody\<lparr>b_quantity := JNumber 0\<rparr>) = JNumber 0
   \<and> POST_food (Some ''u1'') ''Z'' (oatsBody\<lparr>b_quantity := JNumber 0\<rparr>) ''e1'' mealsDb =
       (ErrorJson 404 (Literal ''Meal not found''), mealsDb)"
  by (simp add: badChallengeBody_def POST_challenge_def POST_food_def truthy_def mealsDb_def)

lemma afterAdd_eq:
  "afterAdd =
     mealsDb\<lparr>foodEntryTable :=
                [\<lparr>fe_id = ''e1'', fe_mealId = ''A'', fe_foodName = ''Oats'', fe_quantity = 2,
                  fe_calories = 100, fe_protein = 10, fe_carbs = 20, fe_fats = 5\<rparr>],
              mealTable :=
                [\<lparr>m_id = ''A'', m_userId = ''u1'', m_date = 0, totalCalories = 200,
                  totalProtein = 20, totalCarbs = 40, totalFats = 10\<rparr>,
                 \<lparr>m_id = ''B'', m_userId = ''u1'', m_date = 0, totalCalories = 0,
                  totalProtein = 0, totalCarbs = 0, totalFats = 0\<rparr>]\<rparr>"
  by (simp add: afterAdd_def POST_food_def truthy_def mealsDb_def oatsBody_def
      foodEntrySchema_issues_def zString_def zStringOptionalNullable_def zNumberPositive_def
      zNumber_def zNumberOptionalNullable_def asString_def asNumber_def incrementTotals_def
      Let_def)

lemma afterDelete_eq:
  "afterDelete =
     mealsDb\<lparr>mealTable :=
                [\<lparr>m_id = ''A'', m_userId = ''u1'', m_date = 0, totalCalories = 200,
                  totalProtein = 20, totalCarbs = 40, totalFats = 10\<rparr>,
                 \<lparr>m_id = ''B'', m_userId = ''u1'', m_date = 0, totalCalories = - 200,
                  totalProtein = - 20, totalCarbs = - 40, totalFats = - 10\<rparr>]\<rparr>"
  by (simp add: afterDelete_def afterAdd_eq DELETE_food_def truthy_def mealsDb_def
      decrementTotals_def Let_def)

text \<open>
  Claim C10, evaluated where the code departs from it.  An entry (quantity 2, 100
  calories per unit) is added to meal \<open>A\<close>, whose stored totals go from 0 to 200
  calories.  The same entry is then deleted by a request on the path of meal \<open>B\<close>, a
  meal of the same user.  The request succeeds and the entry is gone, but the totals
  of \<open>A\<close> stay at 200 and those of \<open>B\<close> drop to -200: the handler decrements the meal of
  the path without comparing it with the meal of the entry.
\<close>

theorem delete_through_other_meal:
  "statusOf (fst (POST_food (Some ''u1'') ''A'' oatsBody ''e1'' mealsDb)) = 201
   \<and> statusOf (fst (DELETE_food (Some ''u1'') ''B'' (Some ''e1'') afterAdd)) = 200
   \<and> storedTotals mealsDb ''A'' = Some \<lparr>calories = 0, protein = 0, carbs = 0, fats = 0\<rparr>
   \<and> storedTotals afterAdd ''A'' = Some \<lparr>calories = 200, protein = 20, carbs = 40, fats = 10\<rparr>
   \<and> foodEntryTable afterDelete = []
   \<and> storedTotals afterDelete ''A'' =
       Some \<lparr>calories = 200, protein = 20, carbs = 40, fats = 10\<rparr>
   \<and> storedTotals afterDelete ''B'' =
       Some \<lparr>calories = - 200, protein = - 20, carbs = - 40, fats = - 10\<rparr>"
proof -
  have post: "statusOf (fst (POST_food (Some ''u1'') ''A'' oatsBody ''e1'' mealsDb)) = 201"
    by (simp add: POST_food_def truthy_def mealsDb_def oatsBody_def
      foodEntrySchema_issues_def zString_def zStringOptionalNullable_def zNumberPositive_def
      zNumber_def zNumberOptionalNullable_def incrementTotals_def statusOf_def Let_def)
  have del: "statusOf (fst (DELETE_food (Some ''u1'') ''B'' (Some ''e1'') afterAdd)) = 200"
    by (simp add: afterAdd_eq DELETE_food_def truthy_def mealsDb_def
      decrementTotals_def statusOf_def Let_def)
  show ?thesis
    using post del
    by (simp add: afterAdd_eq afterDelete_eq storedTotals_def mealsDb_def)
qed

lemma find_incrementTotals:
  "find (\<lambda>m. m_id m = k) (incrementTotals mealId amount table) =
     map_option
       (\<lambda>m. if m_id m = mealId
             then m\<lparr>totalCalories := totalCalories m + calories amount,
                    totalProtein := totalProtein m + protein amount,
                    totalCarbs := totalCarbs m + carbs amount,
                    totalFats := totalFats m + fats amount\<rparr>
             else m)
       (find (\<lambda>m. m_id m = k) table)"
  by (induction table) (simp_all add: incrementTotals_def)

lemma find_decrementTotals:
  "find (\<lambda>m. m_id m = k) (decrementTotals mealId amount table) =
     map_option
       (\<lambda>m. if m_id m = mealId
             then m\<lparr>totalCalories := totalCalories m - calories amount,
                    totalProtein := totalProtein m - protein amount,
                    totalCarbs := totalCarbs m - carbs amount,
                    totalFats := totalFats m - fats amount\<rparr>
             else m)
       (find (\<lambda>m. m_id m = k) table)"
  by (induction table) (simp_all add: decrementTotals_def)

lemma decrement_increment:
  "decrementTotals mealId amount (incrementTotals mealId amount table) = table"
  by (induction table) (simp_all add: decrementTotals_def incrementTotals_def)

lemma find_owned_meal:
  "distinct (map m_id table) \<Longrightarrow>
   find (\<lambda>m. m_id m = k \<and> m_userId m = uid) table = Some meal \<Longrightarrow>
   find (\<lambda>m. m_id m = k) table = Some meal"
proof (induction table)
  case Nil
  then show ?case by simp
next
  case (Cons m table)
  show ?case
  proof (cases "m_id m = k")
    case True
    show ?thesis
    proof (cases "m_userId m = uid")
      case True
      with \<open>m_id m = k\<close> Cons.prems show ?thesis by simp
    next
      case False
      with Cons.prems have "find (\<lambda>m. m_id m = k \<and> m_userId m = uid) table = Some meal"
        by simp
      then have "meal \<in> set table" and "m_id meal = k"
        by (auto simp: find_Some_iff)
      then have "k \<in> set (map m_id table)"
        by auto
      with \<open>m_id m = k\<close> Cons.prems(1) have False
        by simp
      then show ?thesis ..
    qed
  next
    case False
    with Cons show ?thesis by simp
  qed
qed

lemma find_fresh_entry:
  "\<forall>e\<in>set table. fe_id e \<noteq> k \<Longrightarrow> fe_id new = k \<Longrightarrow>
   find (\<lambda>e. fe_id e = k) (table @ [new]) = Some new"
  by (induction table) simp_all

lemma filter_fresh_entry:
  "\<forall>e\<in>set table. fe_id e \<noteq> k \<Longrightarrow> fe_id new = k \<Longrightarrow>
   filter (\<lambda>e. fe_id e \<noteq> k) (table @ [new]) = table"
  by (induction table) simp_all

lemma POST_food_created:
  assumes "POST_food sid mealId body newId db = (Json status r, db1)"
  shows "\<exists>uid meal. truthy sid = Some uid
           \<and> find (\<lambda>m. m_id m = mealId \<and> m_userId m = uid) (mealTable db) = Some meal
           \<and> foodEntrySchema_issues body = []
           \<and> db1 = db\<lparr>foodEntryTable := foodEntryTable db @
                        [\<lparr>fe_id = newId, fe_mealId = mealId,
                          fe_foodName = asString (b_foodName body),
                          fe_quantity = asNumber (b_quantity body),
                          fe_calories = asNumber (b_calories body),
                          fe_protein = asNumber (b_protein body),
                          fe_carbs = asNumber (b_carbs body),
                          fe_fats = asNumber (b_fats body)\<rparr>],
                      mealTable := incrementTotals mealId
                        \<lparr>calories = asNumber (b_calories body) * asNumber (b_quantity body),
                         protein = asNumber (b_protein body) * asNumber (b_quantity body),
                         carbs = asNumber (b_carbs body) * asNumber (b_quantity body),
                         fats = asNumber (b_fats body) * asNumber (b_quantity body)\<rparr>
                        (mealTable db)\<rparr>"
  using assms
  by (auto simp: POST_food_def Let_def split: option.splits list.splits)

lemma add_increments_totals:
  assumes "POST_food sid mealId body newId db = (Json status r, db1)"
  shows "storedTotals db1 mealId =
           map_option
             (\<lambda>t. \<lparr>calories = calories t + asNumber (b_calories body) * asNumber (b_quantity body),
                    protein = protein t + asNumber (b_protein body) * asNumber (b_quantity body),
                    carbs = carbs t + asNumber (b_carbs body) * asNumber (b_quantity body),
                    fats = fats t + asNumber (b_fats body) * asNumber (b_quantity body)\<rparr>)
             (storedTotals db mealId)"
proof -
  from POST_food_created [OF assms] obtain uid meal where
    db1: "db1 = db\<lparr>foodEntryTable := foodEntryTable db @
                        [\<lparr>fe_id = newId, fe_mealId = mealId,
                          fe_foodName = asString (b_foodName body),
                          fe_quantity = asNumber (b_quantity body),
                          fe_calories = asNumber (b_calories body),
                          fe_protein = asNumber (b_protein body),
                          fe_carbs = asNumber (b_carbs body),
                          fe_fats = asNumber (b_fats body)\<rparr>],
                      mealTable := incrementTotals mealId
                        \<lparr>calories = asNumber (b_calories body) * asNumber (b_quantity body),
                         protein = asNumber (b_protein body) * asNumber (b_quantity body),
                         carbs = asNumber (b_carbs body) * asNumber (b_quantity body),
                         fats = asNumber (b_fats body) * asNumber (b_quantity body)\<rparr>
                        (mealTable db)\<rparr>"
    by blast
  show ?thesis
  proof (cases "find (\<lambda>m. m_id m = mealId) (mealTable db)")
    case None
    then show ?thesis
      by (simp add: db1 storedTotals_def find_incrementTotals)
  next
    case (Some m)
    then have "m_id m = mealId"
      by (auto simp: find_Some_iff)
    with Some show ?thesis
      by (simp add: db1 storedTotals_def find_incrementTotals)
  qed
qed

lemma add_then_delete_same_meal:
  assumes post: "POST_food sid mealId body newId db = (Json status r, db1)"
    and ids: "distinct (map m_id (mealTable db))"
    and fresh: "\<forall>e\<in>set (foodEntryTable db). fe_id e \<noteq> newId"
    and named: "newId \<noteq> []"
  shows "snd (DELETE_food sid mealId (Some newId) db1) = db
         \<and> statusOf (fst (DELETE_food sid mealId (Some newId) db1)) = 200"
proof -
  from POST_food_created [OF post] obtain uid meal where
    sid: "truthy sid = Some uid" and
    owned: "find (\<lambda>m. m_id m = mealId \<and> m_userId m = uid) (mealTable db) = Some meal" and
    db1: "db1 = db\<lparr>foodEntryTable := foodEntryTable db @
                        [\<lparr>fe_id = newId, fe_mealId = mealId,
                          fe_foodName = asString (b_foodName body),
                          fe_quantity = asNumber (b_quantity body),
                          fe_calories = asNumber (b_calories body),
                          fe_protein = asNumber (b_protein body),
                          fe_carbs = asNumber (b_carbs body),
                          fe_fats = asNumber (b_fats body)\<rparr>],
                      mealTable := incrementTotals mealId
                        \<lparr>calories = asNumber (b_calories body) * asNumber (b_quantity body),
                         protein = asNumber (b_protein body) * asNumber (b_quantity body),
                         carbs = asNumber (b_carbs body) * asNumber (b_quantity body),
                         fats = asNumber (b_fats body) * asNumber (b_quantity body)\<rparr>
                        (mealTable db)\<rparr>"
    by blast
  have found: "find (\<lambda>m. m_id m = mealId) (mealTable db) = Some meal"
    using ids owned by (rule find_owned_meal)
  have user: "m_userId meal = uid"
    using owned by (auto simp: find_Some_iff)
  have param: "truthy (Some newId) = Some newId"
    using named by (simp add: truthy_def)
  show ?thesis
    using sid found user param fresh
    by (simp add: DELETE_food_def db1 Let_def find_fresh_entry filter_fresh_entry
        find_incrementTotals find_decrementTotals decrement_increment statusOf_def)
qed

end
